theory Spec2Isabelle
  imports Complex_Main "HOL-Library.Char_ord" "HOL-Library.List_Lexorder"
begin

section \<open>Python values shared by the modules\<close>

text \<open>
  Every \<open>raise\<close> of the source, and every exception a library call can throw into it,
  is a value of \<open>py_error\<close>; a function that can raise returns \<open>py_error + 'a\<close>
  with \<open>Inl\<close> for the exception.
\<close>

datatype py_error =
    ValueError string
  | KeyError string
  | IndexError string
  | AttributeError string
  | TypeError string
  | Exception string

text \<open>\<open>str(e)\<close>, as the f-string of \<open>load_data\<close> uses it (a \<open>KeyError\<close> prints its key quoted).\<close>

fun str_of_error :: "py_error \<Rightarrow> string" where
  "str_of_error (ValueError m) = m"
| "str_of_error (KeyError k) = [CHR 0x27] @ k @ [CHR 0x27]"
| "str_of_error (IndexError m) = m"
| "str_of_error (AttributeError m) = m"
| "str_of_error (TypeError m) = m"
| "str_of_error (Exception m) = m"

text \<open>
  The error kinds of the specification are the \<open>ValueError\<close>s the code raises, told apart
  by their message.
\<close>

definition NotTrainedError :: py_error where
  "NotTrainedError = ValueError ''Model not trained''"

definition UnsupportedModelError :: "string \<Rightarrow> py_error" where
  "UnsupportedModelError model_type = ValueError (''Unsupported model type: '' @ model_type)"

definition SchemaError :: py_error where
  "SchemaError = ValueError
     ''Error loading data: Missing required columns. Required: ['Date', 'AudienceCount', 'Platform']''"

text \<open>
  A cell of a data frame. Floating-point numbers are idealised as reals (no rounding, no
  overflow); \<open>NaN\<close> is the missing number and \<open>NaT\<close> the missing timestamp. A timestamp is
  a count of nanoseconds since the epoch, as in a \<open>datetime64[ns]\<close> column.
\<close>

datatype cell = Text string | Num real | NaN | Timestamp int | NaT

text \<open>
  A data frame: its column labels, in order, and its rows, each holding one cell per label.
  Labels may repeat, as they may in pandas.
\<close>

record frame =
  columns :: "string list"
  rows :: "cell list list"

definition rectangular :: "'a frame_scheme \<Rightarrow> bool" where
  "rectangular df = list_all (\<lambda>r. length r = length (columns df)) (rows df)"

fun index_of :: "'a \<Rightarrow> 'a list \<Rightarrow> nat" where
  "index_of x [] = 0"
| "index_of x (y # ys) = (if x = y then 0 else Suc (index_of x ys))"

text \<open>
  \<open>df[name]\<close> where a series is expected. A missing label raises \<open>KeyError\<close>. A repeated
  label selects a sub-frame instead of a series, and every consumer in this program
  (\<open>pd.to_datetime\<close>, \<open>groupby\<close>, the model constructors) raises on that.
\<close>

definition col :: "string \<Rightarrow> 'a frame_scheme \<Rightarrow> py_error + cell list" where
  "col name df =
     (if name \<notin> set (columns df) then Inl (KeyError name)
      else if 1 < count_list (columns df) name then Inl (ValueError ''not 1-dimensional'')
      else Inr (map (\<lambda>r. r ! index_of name (columns df)) (rows df)))"

text \<open>The modeling frame is a frame with the timestamps as its index.\<close>

record modeling_frame = frame +
  index :: "cell list"

section \<open>time_series.py: the forecast engine\<close>

subsection \<open>The library objects the engine holds\<close>

text \<open>
  The statistical back ends are not part of the program; what they compute is a parameter.
  A fitted statsmodels result is its \<open>forecast(steps)\<close> method. A fitted Prophet object is
  its \<open>history_dates\<close> and its \<open>predict\<close> method, reduced to the \<open>yhat\<close> column it returns
  for a column \<open>ds\<close> of dates.
\<close>

type_synonym forecaster = "int \<Rightarrow> py_error + real list"

record prophet_fit =
  history_dates :: "int list"
  predict_yhat :: "int list \<Rightarrow> py_error + real list"

text \<open>
  What \<open>self.model\<close> can hold: the model object of \<open>ARIMA(...)\<close> or \<open>SARIMAX(...)\<close> before
  \<open>fit\<close>, the results object \<open>fit\<close> returns, or a \<open>Prophet\<close> object, which \<open>fit\<close> fills in place.
\<close>

datatype model_obj =
    StatsModel
  | StatsResults forecaster
  | ProphetModel "prophet_fit option"

record backends =
  ARIMA_init :: "cell list \<Rightarrow> cell list \<Rightarrow> py_error option"
  ARIMA_fit :: "cell list \<Rightarrow> cell list \<Rightarrow> py_error + forecaster"
  SARIMAX_init :: "cell list \<Rightarrow> cell list \<Rightarrow> py_error option"
  SARIMAX_fit :: "cell list \<Rightarrow> cell list \<Rightarrow> py_error + forecaster"
  Prophet_fit :: "cell list \<Rightarrow> cell list \<Rightarrow> py_error + prophet_fit"

subsection \<open>class TimeSeriesModels\<close>

record TimeSeriesModels =
  model :: "model_obj option"
  model_type :: "string option"

definition init :: TimeSeriesModels where
  "init = \<lparr>model = None, model_type = None\<rparr>"

text \<open>
  Each training method returns what the Python returns or raises, together with the engine
  as the call leaves it. \<open>_train_arima\<close> assigns \<open>self.model\<close> twice: the model object
  first, the fitted results after; an exception in \<open>fit\<close> leaves the first assignment.
\<close>

definition train_arima ::
  "backends \<Rightarrow> TimeSeriesModels \<Rightarrow> modeling_frame \<Rightarrow> (py_error + model_obj) \<times> TimeSeriesModels" where
  "train_arima lib s df =
     (case col ''audience_count'' df of
        Inl e \<Rightarrow> (Inl e, s)
      | Inr y \<Rightarrow>
          (case ARIMA_init lib (index df) y of
             Some e \<Rightarrow> (Inl e, s)
           | None \<Rightarrow>
               (let s1 = s\<lparr>model := Some StatsModel\<rparr> in
                case ARIMA_fit lib (index df) y of
                  Inl e \<Rightarrow> (Inl e, s1)
                | Inr f \<Rightarrow> (Inr (StatsResults f), s1\<lparr>model := Some (StatsResults f)\<rparr>))))"

definition train_sarima ::
  "backends \<Rightarrow> TimeSeriesModels \<Rightarrow> modeling_frame \<Rightarrow> (py_error + model_obj) \<times> TimeSeriesModels" where
  "train_sarima lib s df =
     (case col ''audience_count'' df of
        Inl e \<Rightarrow> (Inl e, s)
      | Inr y \<Rightarrow>
          (case SARIMAX_init lib (index df) y of
             Some e \<Rightarrow> (Inl e, s)
           | None \<Rightarrow>
               (let s1 = s\<lparr>model := Some StatsModel\<rparr> in
                case SARIMAX_fit lib (index df) y of
                  Inl e \<Rightarrow> (Inl e, s1)
                | Inr f \<Rightarrow> (Inr (StatsResults f), s1\<lparr>model := Some (StatsResults f)\<rparr>))))"

definition train_prophet ::
  "backends \<Rightarrow> TimeSeriesModels \<Rightarrow> modeling_frame \<Rightarrow> (py_error + model_obj) \<times> TimeSeriesModels" where
  "train_prophet lib s df =
     (case col ''audience_count'' df of
        Inl e \<Rightarrow> (Inl e, s)
      | Inr y \<Rightarrow>
          (let s1 = s\<lparr>model := Some (ProphetModel None)\<rparr> in
           case Prophet_fit lib (index df) y of
             Inl e \<Rightarrow> (Inl e, s1)
           | Inr p \<Rightarrow> (Inr (ProphetModel (Some p)), s1\<lparr>model := Some (ProphetModel (Some p))\<rparr>)))"

definition train_model ::
  "backends \<Rightarrow> TimeSeriesModels \<Rightarrow> modeling_frame \<Rightarrow> string
     \<Rightarrow> (py_error + model_obj) \<times> TimeSeriesModels" where
  "train_model lib s df mt =
     (let s0 = s\<lparr>model_type := Some mt\<rparr> in
      if mt = ''ARIMA'' then train_arima lib s0 df
      else if mt = ''SARIMA'' then train_sarima lib s0 df
      else if mt = ''Prophet'' then train_prophet lib s0 df
      else (Inl (ValueError (''Unsupported model type: '' @ mt)), s0))"

subsection \<open>get_forecast\<close>

definition day_ns :: int where
  "day_ns = 86400000000000"

text \<open>\<open>pd.date_range(start=..., periods=...)\<close> at the default daily frequency.\<close>

definition date_range :: "int \<Rightarrow> int \<Rightarrow> py_error + int list" where
  "date_range start periods =
     (if periods < 0 then Inl (ValueError ''Number of periods must be non-negative'')
      else Inr (map (\<lambda>k. start + int k * day_ns) [0..<nat periods]))"

text \<open>The slice \<open>xs[:n]\<close> and the method \<open>tail(n)\<close>, for any integer \<open>n\<close>.\<close>

definition slice_to :: "int \<Rightarrow> 'a list \<Rightarrow> 'a list" where
  "slice_to n xs = (if 0 \<le> n then take (nat n) xs else take (length xs - nat (- n)) xs)"

definition tail :: "int \<Rightarrow> 'a list \<Rightarrow> 'a list" where
  "tail n xs =
     (if n = 0 then [] else if 0 < n then drop (length xs - nat n) xs else drop (nat (- n)) xs)"

text \<open>
  Prophet's \<open>make_future_dataframe(periods)\<close>: the history dates followed by the days after
  the last of them (\<open>date_range\<close> from the last date with one period more, the start dropped,
  cut to \<open>periods\<close>). A fitted object has history dates; the empty case only completes
  the definition.
\<close>

definition make_future_dataframe :: "prophet_fit \<Rightarrow> int \<Rightarrow> py_error + int list" where
  "make_future_dataframe p periods =
     (case history_dates p of
        [] \<Rightarrow> Inl (ValueError ''no history dates'')
      | d # ds \<Rightarrow>
          (let last_date = fold max ds d in
           case date_range last_date (periods + 1) of
             Inl e \<Rightarrow> Inl e
           | Inr dates \<Rightarrow>
               Inr (history_dates p @ slice_to periods (filter (\<lambda>t. last_date < t) dates))))"

text \<open>
  The result is \<open>Inr (Some xs)\<close> for a returned series and \<open>Inr None\<close> where the Python
  function falls off its end and returns \<open>None\<close>. A method the held object does not have
  raises \<open>AttributeError\<close>.
\<close>

definition get_forecast :: "TimeSeriesModels \<Rightarrow> int \<Rightarrow> py_error + real list option" where
  "get_forecast s periods =
     (case model s of
        None \<Rightarrow> Inl (ValueError ''Model not trained'')
      | Some m \<Rightarrow>
          if model_type s = Some ''ARIMA'' \<or> model_type s = Some ''SARIMA'' then
            (case m of
               StatsResults f \<Rightarrow>
                 (case f periods of Inl e \<Rightarrow> Inl e | Inr forecast \<Rightarrow> Inr (Some forecast))
             | _ \<Rightarrow> Inl (AttributeError ''forecast''))
          else if model_type s = Some ''Prophet'' then
            (case m of
               ProphetModel (Some p) \<Rightarrow>
                 (case make_future_dataframe p periods of
                    Inl e \<Rightarrow> Inl e
                  | Inr future \<Rightarrow>
                      (case predict_yhat p future of
                         Inl e \<Rightarrow> Inl e
                       | Inr forecast \<Rightarrow> Inr (Some (tail periods forecast))))
             | ProphetModel None \<Rightarrow> Inl (Exception ''Model has not been fit.'')
             | _ \<Rightarrow> Inl (AttributeError ''make_future_dataframe''))
          else Inr None)"

text \<open>
  A valid trained handle: the engine holds a fitted object of the kind its \<open>model_type\<close>
  names, and the object keeps its library's contract: \<open>forecast(steps)\<close> returns \<open>steps\<close>
  values for a positive \<open>steps\<close>; Prophet has a history and \<open>predict\<close> returns one \<open>yhat\<close>
  for each date it is given.
\<close>

definition forecaster_ok :: "forecaster \<Rightarrow> bool" where
  "forecaster_ok f = (\<forall>n. 0 < n \<longrightarrow> (\<exists>xs. f n = Inr xs \<and> length xs = nat n))"

definition prophet_ok :: "prophet_fit \<Rightarrow> bool" where
  "prophet_ok p =
     (history_dates p \<noteq> [] \<and>
      (\<forall>ds. ds \<noteq> [] \<longrightarrow> (\<exists>ys. predict_yhat p ds = Inr ys \<and> length ys = length ds)))"

definition valid_handle :: "TimeSeriesModels \<Rightarrow> bool" where
  "valid_handle s =
     (case model s of
        Some (StatsResults f) \<Rightarrow>
          (model_type s = Some ''ARIMA'' \<or> model_type s = Some ''SARIMA'') \<and> forecaster_ok f
      | Some (ProphetModel (Some p)) \<Rightarrow> model_type s = Some ''Prophet'' \<and> prophet_ok p
      | _ \<Rightarrow> False)"

text \<open>The same contract, for whatever the back ends return from \<open>fit\<close>.\<close>

definition backends_ok :: "backends \<Rightarrow> bool" where
  "backends_ok lib =
     ((\<forall>i y f. ARIMA_fit lib i y = Inr f \<longrightarrow> forecaster_ok f)
      \<and> (\<forall>i y f. SARIMAX_fit lib i y = Inr f \<longrightarrow> forecaster_ok f)
      \<and> (\<forall>i y p. Prophet_fit lib i y = Inr p \<longrightarrow> prophet_ok p))"

subsection \<open>A small engine, trained on two observations\<close>

definition example_frame :: modeling_frame where
  "example_frame =
     \<lparr>columns = [''audience_count''], rows = [[Num 10], [Num 12]],
      index = [Timestamp 0, Timestamp day_ns]\<rparr>"

definition example_backends :: backends where
  "example_backends =
     \<lparr>ARIMA_init = (\<lambda>i y. None),
      ARIMA_fit = (\<lambda>i y. Inr (\<lambda>n. Inr (replicate (nat n) 11))),
      SARIMAX_init = (\<lambda>i y. None),
      SARIMAX_fit = (\<lambda>i y. Inr (\<lambda>n. Inr (replicate (nat n) 11))),
      Prophet_fit = (\<lambda>i y. Inr \<lparr>history_dates = [0, day_ns],
                                 predict_yhat = (\<lambda>ds. Inr (map (\<lambda>d. 11) ds))\<rparr>)\<rparr>"

definition arima_engine :: TimeSeriesModels where
  "arima_engine = snd (train_model example_backends init example_frame ''ARIMA'')"

definition sarima_engine :: TimeSeriesModels where
  "sarima_engine = snd (train_model example_backends init example_frame ''SARIMA'')"

definition prophet_engine :: TimeSeriesModels where
  "prophet_engine = snd (train_model example_backends init example_frame ''Prophet'')"

text \<open>
  A frame of a single observation, and back ends whose \<open>fit\<close> raises on it: Prophet asks for
  two rows at least.
\<close>

definition one_row_frame :: modeling_frame where
  "one_row_frame = \<lparr>columns = [''audience_count''], rows = [[Num 10]], index = [Timestamp 0]\<rparr>"

definition failing_backends :: backends where
  "failing_backends =
     \<lparr>ARIMA_init = (\<lambda>i y. None),
      ARIMA_fit = (\<lambda>i y. Inl (ValueError ''too few observations'')),
      SARIMAX_init = (\<lambda>i y. None),
      SARIMAX_fit = (\<lambda>i y. Inl (ValueError ''too few observations'')),
      Prophet_fit = (\<lambda>i y. Inl (ValueError ''Dataframe has less than 2 non-NaN rows.''))\<rparr>"

section \<open>time_series.py: calculate_metrics\<close>

text \<open>
  An element of a float array: a finite number (idealised as a real: no rounding, no
  overflow) or one of the IEEE special values. Zero carries no sign here: a nonzero number
  divided by zero is the infinity with the sign of the numerator.
\<close>

datatype fnum = Finite real | PosInf | NegInf | NotANumber

fun fneg :: "fnum \<Rightarrow> fnum" where
  "fneg (Finite x) = Finite (- x)"
| "fneg PosInf = NegInf"
| "fneg NegInf = PosInf"
| "fneg NotANumber = NotANumber"

fun fabs :: "fnum \<Rightarrow> fnum" where
  "fabs (Finite x) = Finite \<bar>x\<bar>"
| "fabs PosInf = PosInf"
| "fabs NegInf = PosInf"
| "fabs NotANumber = NotANumber"

fun fadd :: "fnum \<Rightarrow> fnum \<Rightarrow> fnum" where
  "fadd (Finite x) (Finite y) = Finite (x + y)"
| "fadd NotANumber _ = NotANumber"
| "fadd _ NotANumber = NotANumber"
| "fadd PosInf NegInf = NotANumber"
| "fadd NegInf PosInf = NotANumber"
| "fadd PosInf _ = PosInf"
| "fadd _ PosInf = PosInf"
| "fadd NegInf _ = NegInf"
| "fadd _ NegInf = NegInf"

definition fsub :: "fnum \<Rightarrow> fnum \<Rightarrow> fnum" where
  "fsub x y = fadd x (fneg y)"

fun fsgn :: "fnum \<Rightarrow> real" where
  "fsgn (Finite x) = sgn x"
| "fsgn PosInf = 1"
| "fsgn NegInf = - 1"
| "fsgn NotANumber = 0"

definition signed_inf :: "real \<Rightarrow> fnum" where
  "signed_inf s = (if 0 < s then PosInf else if s < 0 then NegInf else NotANumber)"

fun fmul :: "fnum \<Rightarrow> fnum \<Rightarrow> fnum" where
  "fmul (Finite x) (Finite y) = Finite (x * y)"
| "fmul NotANumber _ = NotANumber"
| "fmul _ NotANumber = NotANumber"
| "fmul x y = signed_inf (fsgn x * fsgn y)"

fun fdiv :: "fnum \<Rightarrow> fnum \<Rightarrow> fnum" where
  "fdiv (Finite x) (Finite y) = (if y = 0 then signed_inf x else Finite (x / y))"
| "fdiv NotANumber _ = NotANumber"
| "fdiv _ NotANumber = NotANumber"
| "fdiv (Finite x) _ = Finite 0"
| "fdiv x (Finite y) = signed_inf (fsgn x * (if y < 0 then - 1 else 1))"
| "fdiv _ _ = NotANumber"

text \<open>
  The arguments of \<open>calculate_metrics\<close>: a numpy array (what app.py passes as \<open>actual\<close>) or
  a pandas Series (what it passes as \<open>predicted\<close>). An operation on an array and a Series
  works by position and gives a Series; two Series are taken to share one index, so that
  they combine by position too.
\<close>

datatype float_array = NdArray "fnum list" | Series "fnum list"

fun array_values :: "float_array \<Rightarrow> fnum list" where
  "array_values (NdArray xs) = xs"
| "array_values (Series xs) = xs"

fun is_series :: "float_array \<Rightarrow> bool" where
  "is_series (NdArray xs) = False"
| "is_series (Series xs) = True"

text \<open>The mean of a numpy array: the sum divided by the number of elements.\<close>

definition fsum :: "fnum list \<Rightarrow> fnum" where
  "fsum xs = foldl fadd (Finite 0) xs"

definition fmean :: "fnum list \<Rightarrow> fnum" where
  "fmean xs = fdiv (fsum xs) (Finite (real (length xs)))"

text \<open>
  \<open>np.mean\<close>: on a numpy array the mean above, which a NaN element turns into NaN; on a
  Series it hands over to \<open>Series.mean\<close>, which leaves the NaN elements out (\<open>skipna\<close>) and
  is NaN only when nothing is left. An infinite element stays in either way.
\<close>

definition np_mean :: "bool \<Rightarrow> fnum list \<Rightarrow> fnum" where
  "np_mean series xs = (if series then fmean (filter (\<lambda>x. x \<noteq> NotANumber) xs) else fmean xs)"

fun is_finite :: "fnum \<Rightarrow> bool" where
  "is_finite (Finite x) = True"
| "is_finite _ = False"

fun the_finite :: "fnum \<Rightarrow> real" where
  "the_finite (Finite x) = x"
| "the_finite _ = 0"

text \<open>
  The input validation every scikit-learn regression metric runs first: both arrays of one
  length, at least one sample, no NaN and no infinity; each failure is a \<open>ValueError\<close>.
\<close>

definition check_reg_targets :: "fnum list \<Rightarrow> fnum list \<Rightarrow> py_error + real list \<times> real list" where
  "check_reg_targets y_true y_pred =
     (if length y_true \<noteq> length y_pred
        then Inl (ValueError ''Found input variables with inconsistent numbers of samples'')
      else if y_true = [] then Inl (ValueError ''Found array with 0 sample(s)'')
      else if \<not> list_all is_finite y_true \<or> \<not> list_all is_finite y_pred
        then Inl (ValueError ''Input contains NaN or infinity'')
      else Inr (map the_finite y_true, map the_finite y_pred))"

definition mean :: "real list \<Rightarrow> real" where
  "mean xs = sum_list xs / real (length xs)"

definition mean_squared_error :: "fnum list \<Rightarrow> fnum list \<Rightarrow> py_error + real" where
  "mean_squared_error y_true y_pred =
     (case check_reg_targets y_true y_pred of
        Inl e \<Rightarrow> Inl e
      | Inr (a, p) \<Rightarrow> Inr (mean (map2 (\<lambda>x y. (x - y)\<^sup>2) a p)))"

definition mean_absolute_error :: "fnum list \<Rightarrow> fnum list \<Rightarrow> py_error + real" where
  "mean_absolute_error y_true y_pred =
     (case check_reg_targets y_true y_pred of
        Inl e \<Rightarrow> Inl e
      | Inr (a, p) \<Rightarrow> Inr (mean (map2 (\<lambda>x y. \<bar>x - y\<bar>) a p)))"

text \<open>
  \<open>r2_score\<close>: NaN for fewer than two samples; otherwise one minus the ratio of the residual
  to the total sum of squares, with 1 for a zero residual and 0 for a nonzero residual over
  a constant \<open>y_true\<close>.
\<close>

definition r2_score :: "fnum list \<Rightarrow> fnum list \<Rightarrow> py_error + fnum" where
  "r2_score y_true y_pred =
     (case check_reg_targets y_true y_pred of
        Inl e \<Rightarrow> Inl e
      | Inr (a, p) \<Rightarrow>
          if length p < 2 then Inr NotANumber
          else
            (let numerator = sum_list (map2 (\<lambda>x y. (x - y)\<^sup>2) a p);
                 denominator = sum_list (map (\<lambda>x. (x - mean a)\<^sup>2) a)
             in if numerator \<noteq> 0 \<and> denominator \<noteq> 0 then Inr (Finite (1 - numerator / denominator))
                else if numerator \<noteq> 0 then Inr (Finite 0)
                else Inr (Finite 1)))"

text \<open>The returned dictionary, one field for each of its four keys.\<close>

record metrics =
  RMSE :: fnum
  MAE :: fnum
  MAPE :: fnum
  R2 :: fnum

definition calculate_metrics :: "float_array \<Rightarrow> float_array \<Rightarrow> py_error + metrics" where
  "calculate_metrics actual predicted =
     (let a = array_values actual; p = array_values predicted in
      case mean_squared_error a p of
        Inl e \<Rightarrow> Inl e
      | Inr mse \<Rightarrow>
          (case mean_absolute_error a p of
             Inl e \<Rightarrow> Inl e
           | Inr mae \<Rightarrow>
               (let mape = fmul (np_mean (is_series actual \<or> is_series predicted)
                                   (map fabs (map2 fdiv (map2 fsub a p) a)))
                             (Finite 100)
                in case r2_score a p of
                     Inl e \<Rightarrow> Inl e
                   | Inr r2 \<Rightarrow>
                       Inr \<lparr>RMSE = Finite (sqrt mse), MAE = Finite mae, MAPE = mape, R2 = r2\<rparr>)))"

text \<open>
  The absolute percentage error of one pair of finite values as plain floating-point
  division gives it, with no special case: a nonzero number over zero is infinite, zero
  over zero is NaN.
\<close>

definition absolute_percentage_error :: "real \<Rightarrow> real \<Rightarrow> fnum" where
  "absolute_percentage_error a p =
     (if a = 0 then (if p = 0 then NotANumber else PosInf) else Finite (\<bar>a - p\<bar> / \<bar>a\<bar>))"

text \<open>Two classes of float values used to describe the terms of the MAPE sum.\<close>

fun nonneg :: "fnum \<Rightarrow> bool" where
  "nonneg (Finite r) = (0 \<le> r)"
| "nonneg PosInf = True"
| "nonneg NegInf = False"
| "nonneg NotANumber = True"

fun inf_or_nan :: "fnum \<Rightarrow> bool" where
  "inf_or_nan (Finite r) = False"
| "inf_or_nan PosInf = True"
| "inf_or_nan NegInf = False"
| "inf_or_nan NotANumber = True"

section \<open>data_processor.py\<close>

subsection \<open>Frame operations\<close>

text \<open>
  \<open>df[name] = values\<close>: every column carrying the label takes the values; a new label is
  appended as the last column.
\<close>

definition set_col :: "string \<Rightarrow> cell list \<Rightarrow> frame \<Rightarrow> frame" where
  "set_col name vals df =
     (if name \<in> set (columns df)
      then df\<lparr>rows := map2 (\<lambda>r v. map2 (\<lambda>c x. if c = name then v else x) (columns df) r)
                          (rows df) vals\<rparr>
      else df\<lparr>columns := columns df @ [name], rows := map2 (\<lambda>r v. r @ [v]) (rows df) vals\<rparr>)"

text \<open>The columns of several labels, in the order asked for.\<close>

fun cols :: "string list \<Rightarrow> frame \<Rightarrow> py_error + cell list list" where
  "cols [] df = Inr []"
| "cols (n # ns) df =
     (case col n df of
        Inl e \<Rightarrow> Inl e
      | Inr c \<Rightarrow> (case cols ns df of Inl e \<Rightarrow> Inl e | Inr cs \<Rightarrow> Inr (c # cs)))"

fun set_cols :: "string list \<Rightarrow> cell list list \<Rightarrow> frame \<Rightarrow> frame" where
  "set_cols (n # ns) (c # cs) df = set_cols ns cs (set_col n c df)"
| "set_cols _ _ df = df"

subsection \<open>load_data\<close>

definition column_mapping :: "string \<rightharpoonup> string" where
  "column_mapping =
     [''Date'' \<mapsto> ''timestamp'', ''AudienceCount'' \<mapsto> ''audience_count'',
      ''Platform'' \<mapsto> ''platform'']"

definition required_columns :: "string list" where
  "required_columns = [''Date'', ''AudienceCount'', ''Platform'']"

text \<open>\<open>df.rename(columns=mapping)\<close>: a label in the mapping is replaced, any other is kept.\<close>

definition rename :: "(string \<rightharpoonup> string) \<Rightarrow> frame \<Rightarrow> frame" where
  "rename mapping df =
     df\<lparr>columns := map (\<lambda>c. case mapping c of None \<Rightarrow> c | Some c' \<Rightarrow> c') (columns df)\<rparr>"

text \<open>
  The argument is what \<open>pd.read_csv\<close> made of the uploaded file: the parsed table, or the
  exception it raised. The body of the \<open>try\<close> comes first, the \<open>except\<close> clause wraps
  whatever it raised.
\<close>

definition load_data :: "py_error + frame \<Rightarrow> py_error + frame" where
  "load_data read_csv =
     (case
        (case read_csv of
           Inl e \<Rightarrow> Inl e
         | Inr df \<Rightarrow>
             if \<not> list_all (\<lambda>c. c \<in> set (columns df)) required_columns
             then Inl (ValueError
               ''Missing required columns. Required: ['Date', 'AudienceCount', 'Platform']'')
             else Inr (rename column_mapping df))
      of
        Inl e \<Rightarrow> Inl (ValueError (''Error loading data: '' @ str_of_error e))
      | Inr df \<Rightarrow> Inr df)"

subsection \<open>preprocess_data\<close>

text \<open>
  \<open>pd.to_datetime\<close> on a column: how one cell is parsed is the library's business and a
  parameter here (\<open>Inr None\<close> for a missing date); the result is a timestamp column.
\<close>

definition to_datetime ::
  "(cell \<Rightarrow> py_error + int option) \<Rightarrow> cell list \<Rightarrow> py_error + cell list" where
  "to_datetime parse cs =
     foldr (\<lambda>c acc.
              case parse c of
                Inl e \<Rightarrow> Inl e
              | Inr d \<Rightarrow>
                  (case acc of
                     Inl e \<Rightarrow> Inl e
                   | Inr ds \<Rightarrow> Inr ((case d of None \<Rightarrow> NaT | Some t \<Rightarrow> Timestamp t) # ds)))
           cs (Inr [])"

fun is_timestamp :: "cell \<Rightarrow> bool" where
  "is_timestamp (Timestamp t) = True"
| "is_timestamp _ = False"

fun the_timestamp :: "cell \<Rightarrow> int" where
  "the_timestamp (Timestamp t) = t"
| "the_timestamp _ = 0"

text \<open>
  \<open>df.sort_values('timestamp')\<close> on a timestamp column: the dated rows in ascending order,
  the rows without a date after them.
\<close>

definition sort_values_timestamp :: "frame \<Rightarrow> py_error + frame" where
  "sort_values_timestamp df =
     (case col ''timestamp'' df of
        Inl e \<Rightarrow> Inl e
      | Inr ts \<Rightarrow>
          (let keyed = zip ts (rows df) in
           Inr (df\<lparr>rows := map snd (sort_key (\<lambda>kr. the_timestamp (fst kr))
                                        (filter (\<lambda>kr. is_timestamp (fst kr)) keyed)
                                      @ filter (\<lambda>kr. \<not> is_timestamp (fst kr)) keyed)\<rparr>)))"

definition numeric_columns :: "string list" where
  "numeric_columns = [''audience_count'', ''EngagementRate'', ''ConversionRate'', ''ForecastError'']"

definition hour_ns :: int where
  "hour_ns = 3600000000000"

text \<open>The \<open>.dt\<close> accessors; day 0 of the epoch is a Thursday, and Monday is day-of-week 0.\<close>

definition month_of_days :: "int \<Rightarrow> int" where
  "month_of_days days =
     (let z = days + 719468;
          era = z div 146097;
          doe = z - era * 146097;
          yoe = (doe - doe div 1460 + doe div 36524 - doe div 146096) div 365;
          doy = doe - (365 * yoe + yoe div 4 - yoe div 100);
          mp = (5 * doy + 2) div 153
      in if mp < 10 then mp + 3 else mp - 9)"

fun dt_hour :: "cell \<Rightarrow> cell" where
  "dt_hour (Timestamp t) = Num (of_int ((t div hour_ns) mod 24))"
| "dt_hour _ = NaN"

fun dt_dayofweek :: "cell \<Rightarrow> cell" where
  "dt_dayofweek (Timestamp t) = Num (of_int ((t div day_ns + 3) mod 7))"
| "dt_dayofweek _ = NaN"

fun dt_month :: "cell \<Rightarrow> cell" where
  "dt_month (Timestamp t) = Num (of_int (month_of_days (t div day_ns)))"
| "dt_month _ = NaN"

text \<open>\<open>isin([5, 6]).astype(int)\<close> and \<open>between(19, 22).astype(int)\<close>.\<close>

fun isin_5_6 :: "cell \<Rightarrow> cell" where
  "isin_5_6 (Num x) = Num (if x = 5 \<or> x = 6 then 1 else 0)"
| "isin_5_6 _ = Num 0"

fun between_19_22 :: "cell \<Rightarrow> cell" where
  "between_19_22 (Num x) = Num (if 19 \<le> x \<and> x \<le> 22 then 1 else 0)"
| "between_19_22 _ = Num 0"

text \<open>
  The imputer's \<open>fit_transform\<close> is a parameter; the block of numeric columns goes to it and
  comes back column by column. The assignment back raises unless the result has the four
  columns and the rows of the frame.
\<close>

definition preprocess_data ::
  "(cell \<Rightarrow> py_error + int option) \<Rightarrow> (cell list list \<Rightarrow> py_error + real list list)
     \<Rightarrow> frame \<Rightarrow> py_error + frame" where
  "preprocess_data parse fit_transform df =
     (case col ''timestamp'' df of
        Inl e \<Rightarrow> Inl e
      | Inr raw \<Rightarrow>
     (case to_datetime parse raw of
        Inl e \<Rightarrow> Inl e
      | Inr ts \<Rightarrow>
     (case sort_values_timestamp (set_col ''timestamp'' ts df) of
        Inl e \<Rightarrow> Inl e
      | Inr df1 \<Rightarrow>
     (case cols numeric_columns df1 of
        Inl e \<Rightarrow> Inl e
      | Inr block \<Rightarrow>
     (case fit_transform block of
        Inl e \<Rightarrow> Inl e
      | Inr imputed \<Rightarrow>
          if length imputed \<noteq> length numeric_columns
             \<or> \<not> list_all (\<lambda>c. length c = length (rows df1)) imputed
          then Inl (ValueError ''Columns must be same length as key'')
          else
     (let df2 = set_cols numeric_columns (map (map Num) imputed) df1 in
      case col ''timestamp'' df2 of
        Inl e \<Rightarrow> Inl e
      | Inr t \<Rightarrow>
     (let df3 = set_col ''hour'' (map dt_hour t) df2;
          df4 = set_col ''day_of_week'' (map dt_dayofweek t) df3;
          df5 = set_col ''month'' (map dt_month t) df4
      in
      case col ''day_of_week'' df5 of
        Inl e \<Rightarrow> Inl e
      | Inr dow \<Rightarrow>
     (let df6 = set_col ''is_weekend'' (map isin_5_6 dow) df5 in
      case col ''hour'' df6 of
        Inl e \<Rightarrow> Inl e
      | Inr hour \<Rightarrow> Inr (set_col ''is_prime_time'' (map between_19_22 hour) df6)))))))))"

text \<open>Ascending order of a timestamp column, a missing date counting as last.\<close>

fun ts_le :: "cell \<Rightarrow> cell \<Rightarrow> bool" where
  "ts_le (Timestamp a) (Timestamp b) = (a \<le> b)"
| "ts_le (Timestamp a) NaT = True"
| "ts_le NaT NaT = True"
| "ts_le _ _ = False"

subsection \<open>engineer_features\<close>

text \<open>
  \<open>groupby('platform')[...].transform(lambda x: x.rolling(7, min_periods=1)...)\<close>: the
  window of a row holds the values of its own platform group up to and including the row,
  the last seven of them at most.
\<close>

definition group_window :: "cell list \<Rightarrow> cell list \<Rightarrow> nat \<Rightarrow> cell list" where
  "group_window plat aud i =
     (let grp = map snd (filter (\<lambda>pa. fst pa = plat ! i) (take (Suc i) (zip plat aud)))
      in drop (length grp - 7) grp)"

text \<open>The observations of a window: its numbers, the missing values left out.\<close>

fun observations :: "cell list \<Rightarrow> real list" where
  "observations [] = []"
| "observations (Num x # cs) = x # observations cs"
| "observations (_ # cs) = observations cs"

text \<open>
  \<open>mean()\<close> needs \<open>min_periods = 1\<close> observation. \<open>std()\<close> is the sample standard deviation
  (one degree of freedom taken off), which needs more observations than that one degree:
  on a single observation it is NaN.
\<close>

definition rolling_mean :: "cell list \<Rightarrow> cell" where
  "rolling_mean w =
     (let obs = observations w in
      if 1 \<le> length obs then Num (sum_list obs / real (length obs)) else NaN)"

definition rolling_std :: "cell list \<Rightarrow> cell" where
  "rolling_std w =
     (let obs = observations w; m = sum_list obs / real (length obs) in
      if 1 \<le> length obs \<and> 1 < length obs
      then Num (sqrt (sum_list (map (\<lambda>x. (x - m)\<^sup>2) obs) / real (length obs - 1)))
      else NaN)"

fun is_numeric :: "cell \<Rightarrow> bool" where
  "is_numeric (Num x) = True"
| "is_numeric NaN = True"
| "is_numeric _ = False"

text \<open>A row whose group key is missing belongs to no group and gets NaN.\<close>

definition group_rolling ::
  "(cell list \<Rightarrow> cell) \<Rightarrow> cell list \<Rightarrow> cell list \<Rightarrow> py_error + cell list" where
  "group_rolling stat plat aud =
     (if \<not> list_all is_numeric aud then Inl (Exception ''No numeric types to aggregate'')
      else Inr (map (\<lambda>i. if plat ! i = NaN then NaN else stat (group_window plat aud i))
                  [0..<length aud]))"

fun cell_mul :: "cell \<Rightarrow> cell \<Rightarrow> py_error + cell" where
  "cell_mul (Num x) (Num y) = Inr (Num (x * y))"
| "cell_mul (Num x) NaN = Inr NaN"
| "cell_mul NaN (Num y) = Inr NaN"
| "cell_mul NaN NaN = Inr NaN"
| "cell_mul _ _ = Inl (TypeError ''unsupported operand type(s) for *'')"

fun series_mul :: "cell list \<Rightarrow> cell list \<Rightarrow> py_error + cell list" where
  "series_mul (x # xs) (y # ys) =
     (case cell_mul x y of
        Inl e \<Rightarrow> Inl e
      | Inr z \<Rightarrow> (case series_mul xs ys of Inl e \<Rightarrow> Inl e | Inr zs \<Rightarrow> Inr (z # zs)))"
| "series_mul _ _ = Inr []"

text \<open>
  \<open>pd.Categorical(...).codes\<close> for a column of text labels: the position of the label among
  the sorted distinct labels, and -1 for a cell that is no label.
\<close>

fun labels :: "cell list \<Rightarrow> string list" where
  "labels [] = []"
| "labels (Text s # cs) = s # labels cs"
| "labels (_ # cs) = labels cs"

fun category_code :: "string list \<Rightarrow> cell \<Rightarrow> cell" where
  "category_code cats (Text s) = Num (real (index_of s cats))"
| "category_code cats _ = Num (- 1)"

definition categorical_codes :: "cell list \<Rightarrow> cell list" where
  "categorical_codes cs = map (category_code (sort (remdups (labels cs)))) cs"

definition engineer_features :: "frame \<Rightarrow> py_error + frame" where
  "engineer_features df =
     (case col ''platform'' df of
        Inl e \<Rightarrow> Inl e
      | Inr plat \<Rightarrow>
     (case col ''audience_count'' df of
        Inl e \<Rightarrow> Inl e
      | Inr aud \<Rightarrow>
     (case group_rolling rolling_mean plat aud of
        Inl e \<Rightarrow> Inl e
      | Inr means \<Rightarrow>
     (let df1 = set_col ''audience_7day_mean'' means df in
      case col ''platform'' df1 of
        Inl e \<Rightarrow> Inl e
      | Inr plat1 \<Rightarrow>
     (case col ''audience_count'' df1 of
        Inl e \<Rightarrow> Inl e
      | Inr aud1 \<Rightarrow>
     (case group_rolling rolling_std plat1 aud1 of
        Inl e \<Rightarrow> Inl e
      | Inr stds \<Rightarrow>
     (let df2 = set_col ''audience_7day_std'' stds df1 in
      case col ''EngagementRate'' df2 of
        Inl e \<Rightarrow> Inl e
      | Inr er \<Rightarrow>
     (case col ''ConversionRate'' df2 of
        Inl e \<Rightarrow> Inl e
      | Inr cr \<Rightarrow>
     (case series_mul er cr of
        Inl e \<Rightarrow> Inl e
      | Inr score \<Rightarrow>
     (let df3 = set_col ''engagement_score'' score df2 in
      case col ''platform'' df3 of
        Inl e \<Rightarrow> Inl e
      | Inr plat3 \<Rightarrow>
          Inr (set_col ''platform_encoded'' (categorical_codes plat3) df3)))))))))))"

section \<open>app.py: the forecast table offered for download\<close>

text \<open>
  \<open>pd.DataFrame({'timestamp': pd.date_range(start=modeling_df.index[-1] + timedelta(days=1),
  periods=forecast_periods), 'forecast': forecast})\<close>, as its rows of timestamp and
  forecast. The constructor raises when the two columns differ in length.
\<close>

definition forecast_df :: "modeling_frame \<Rightarrow> int \<Rightarrow> real list \<Rightarrow> py_error + (int \<times> real) list" where
  "forecast_df modeling_df forecast_periods forecast =
     (if index modeling_df = []
      then Inl (IndexError ''index -1 is out of bounds for axis 0 with size 0'')
      else
        (case last (index modeling_df) of
           Timestamp t \<Rightarrow>
             (case date_range (t + day_ns) forecast_periods of
                Inl e \<Rightarrow> Inl e
              | Inr ts \<Rightarrow>
                  if length ts \<noteq> length forecast
                  then Inl (ValueError ''array length does not match index length'')
                  else Inr (zip ts forecast))
         | NaT \<Rightarrow> Inl (ValueError ''Neither start nor end can be NaT'')
         | _ \<Rightarrow> Inl (TypeError ''unsupported operand type(s) for +'')))"

subsection \<open>A small upload, followed through the pipeline\<close>

text \<open>
  Three rows out of order with one missing rate; a parser for its three dates; an imputer
  standing in for the library's, which fills a missing number with 0.
\<close>

definition raw_table :: frame where
  "raw_table =
     \<lparr>columns = [''Date'', ''Platform'', ''AudienceCount'', ''EngagementRate'', ''ConversionRate'',
                 ''ForecastError''],
      rows = [[Text ''2024-01-02'', Text ''Web'', Num 5, Num 2, Num 3, Num 0],
              [Text ''2024-01-01'', Text ''Web'', Num 5, NaN, Num 3, Num 0],
              [Text ''2024-01-03'', Text ''Web'', Num 5, Num 2, Num 4, Num 0]]\<rparr>"

definition example_parse :: "cell \<Rightarrow> py_error + int option" where
  "example_parse c =
     (case c of
        Text s \<Rightarrow>
          if s = ''2024-01-01'' then Inr (Some (19723 * day_ns))
          else if s = ''2024-01-02'' then Inr (Some (19724 * day_ns))
          else if s = ''2024-01-03'' then Inr (Some (19725 * day_ns))
          else Inl (ValueError ''Unknown datetime string format'')
      | NaN \<Rightarrow> Inr None
      | _ \<Rightarrow> Inl (TypeError ''not convertible to datetime''))"

definition example_imputer :: "cell list list \<Rightarrow> py_error + real list list" where
  "example_imputer block = Inr (map (map (\<lambda>c. case c of Num x \<Rightarrow> x | _ \<Rightarrow> 0)) block)"


definition loaded_table :: frame where
  "loaded_table =
     \<lparr>columns = [''timestamp'', ''platform'', ''audience_count'', ''EngagementRate'',
                 ''ConversionRate'', ''ForecastError''],
      rows = [[Text ''2024-01-02'', Text ''Web'', Num 5, Num 2, Num 3, Num 0],
              [Text ''2024-01-01'', Text ''Web'', Num 5, NaN, Num 3, Num 0],
              [Text ''2024-01-03'', Text ''Web'', Num 5, Num 2, Num 4, Num 0]]\<rparr>"

definition preprocessed_table :: frame where
  "preprocessed_table =
     \<lparr>columns = [''timestamp'', ''platform'', ''audience_count'', ''EngagementRate'',
                 ''ConversionRate'', ''ForecastError'', ''hour'', ''day_of_week'', ''month'',
                 ''is_weekend'', ''is_prime_time''],
      rows = [[Timestamp 1704067200000000000, Text ''Web'', Num 5, Num 0, Num 3, Num 0,
               Num 0, Num 0, Num 1, Num 0, Num 0],
              [Timestamp 1704153600000000000, Text ''Web'', Num 5, Num 2, Num 3, Num 0,
               Num 0, Num 1, Num 1, Num 0, Num 0],
              [Timestamp 1704240000000000000, Text ''Web'', Num 5, Num 2, Num 4, Num 0,
               Num 0, Num 2, Num 1, Num 0, Num 0]]\<rparr>"

definition featured_table :: frame where
  "featured_table =
     \<lparr>columns = [''timestamp'', ''platform'', ''audience_count'', ''EngagementRate'',
                 ''ConversionRate'', ''ForecastError'', ''hour'', ''day_of_week'', ''month'',
                 ''is_weekend'', ''is_prime_time'', ''audience_7day_mean'', ''audience_7day_std'',
                 ''engagement_score'', ''platform_encoded''],
      rows = [[Timestamp 1704067200000000000, Text ''Web'', Num 5, Num 0, Num 3, Num 0,
               Num 0, Num 0, Num 1, Num 0, Num 0, Num 5, NaN, Num 0, Num 0],
              [Timestamp 1704153600000000000, Text ''Web'', Num 5, Num 2, Num 3, Num 0,
               Num 0, Num 1, Num 1, Num 0, Num 0, Num 5, Num 0, Num 6, Num 0],
              [Timestamp 1704240000000000000, Text ''Web'', Num 5, Num 2, Num 4, Num 0,
               Num 0, Num 2, Num 1, Num 0, Num 0, Num 5, Num 0, Num 8, Num 0]]\<rparr>"

section \<open>Properties of the forecast engine\<close>

lemma length_slice_to: "0 \<le> n \<Longrightarrow> nat n \<le> length xs \<Longrightarrow> length (slice_to n xs) = nat n"
  by (simp add: slice_to_def)

lemma length_tail: "0 < n \<Longrightarrow> nat n \<le> length xs \<Longrightarrow> length (tail n xs) = nat n"
  by (simp add: tail_def)

lemma filter_future_dates:
  "filter (\<lambda>t. d < t) (map (\<lambda>k. d + int k * day_ns) [0..<Suc n])
     = map (\<lambda>k. d + int k * day_ns) [1..<Suc n]"
proof -
  have "[0..<Suc n] = 0 # [1..<Suc n]"
    by (simp add: upt_rec)
  moreover have "filter (\<lambda>t. d < t) (map (\<lambda>k. d + int k * day_ns) [1..<Suc n])
      = map (\<lambda>k. d + int k * day_ns) [1..<Suc n]"
    by (rule filter_True) (auto simp: day_ns_def)
  ultimately show ?thesis
    by simp
qed

lemma make_future_dataframe_length:
  assumes "history_dates p \<noteq> []" and "0 \<le> n"
  shows "\<exists>future. make_future_dataframe p n = Inr future
           \<and> length future = length (history_dates p) + nat n"
proof -
  obtain d ds where h: "history_dates p = d # ds"
    using assms(1) by (cases "history_dates p") auto
  have n: "nat (n + 1) = Suc (nat n)"
    using assms(2) by simp
  show ?thesis
    using assms(2)
    by (simp add: make_future_dataframe_def h date_range_def n filter_future_dates
        slice_to_def del: upt_Suc)
qed

text \<open>For a positive horizon, a valid handle yields a series of exactly that many values.\<close>

lemma get_forecast_length:
  assumes "valid_handle s" and "0 < n"
  shows "\<exists>xs. get_forecast s n = Inr (Some xs) \<and> length xs = nat n"
proof (cases "model s")
  case None
  with assms(1) show ?thesis
    by (simp add: valid_handle_def)
next
  case (Some m)
  show ?thesis
  proof (cases m)
    case StatsModel
    with Some assms(1) show ?thesis
      by (simp add: valid_handle_def)
  next
    case (StatsResults f)
    with Some assms(1) have mt: "model_type s = Some ''ARIMA'' \<or> model_type s = Some ''SARIMA''"
      and ok: "forecaster_ok f"
      by (simp_all add: valid_handle_def)
    from ok assms(2) obtain xs where "f n = Inr xs" "length xs = nat n"
      unfolding forecaster_ok_def by blast
    with Some StatsResults mt show ?thesis
      by (auto simp: get_forecast_def)
  next
    case (ProphetModel po)
    with Some assms(1) obtain p where po: "po = Some p"
      by (cases po) (simp_all add: valid_handle_def)
    with Some ProphetModel assms(1) have mt: "model_type s = Some ''Prophet''"
      and ok: "prophet_ok p"
      by (simp_all add: valid_handle_def)
    from ok have hist: "history_dates p \<noteq> []"
      by (simp add: prophet_ok_def)
    from make_future_dataframe_length [OF hist, of n] assms(2)
    obtain future where fut: "make_future_dataframe p n = Inr future"
      and len: "length future = length (history_dates p) + nat n"
      by auto
    from len hist have "future \<noteq> []"
      by auto
    with ok obtain ys where ys: "predict_yhat p future = Inr ys" "length ys = length future"
      unfolding prophet_ok_def by blast
    have "length (tail n ys) = nat n"
      using assms(2) ys(2) len by (simp add: length_tail)
    with Some ProphetModel po mt fut ys show ?thesis
      by (simp add: get_forecast_def)
  qed
qed

text \<open>A training call that returns leaves a valid handle, the one it returns.\<close>

lemma train_model_valid_handle:
  assumes "backends_ok lib" and "fst (train_model lib s df mt) = Inr m"
  shows "valid_handle (snd (train_model lib s df mt)) \<and> model (snd (train_model lib s df mt)) = Some m"
proof -
  consider "mt = ''ARIMA''" | "mt = ''SARIMA''" | "mt = ''Prophet''"
    | "mt \<notin> {''ARIMA'', ''SARIMA'', ''Prophet''}"
    by auto
  then show ?thesis
  proof cases
    case 1
    with assms show ?thesis
      by (auto simp: train_model_def train_arima_def valid_handle_def backends_ok_def Let_def
          split: sum.splits option.splits)
  next
    case 2
    with assms show ?thesis
      by (auto simp: train_model_def train_sarima_def valid_handle_def backends_ok_def Let_def
          split: sum.splits option.splits)
  next
    case 3
    with assms show ?thesis
      by (auto simp: train_model_def train_prophet_def valid_handle_def backends_ok_def Let_def
          split: sum.splits option.splits)
  next
    case 4
    with assms show ?thesis
      by (simp add: train_model_def Let_def)
  qed
qed

lemma arima_engine_eq:
  "arima_engine =
     \<lparr>model = Some (StatsResults (\<lambda>n. Inr (replicate (nat n) 11))), model_type = Some ''ARIMA''\<rparr>"
  by (simp add: arima_engine_def train_model_def train_arima_def example_backends_def
      example_frame_def col_def init_def)

lemma sarima_engine_eq:
  "sarima_engine =
     \<lparr>model = Some (StatsResults (\<lambda>n. Inr (replicate (nat n) 11))), model_type = Some ''SARIMA''\<rparr>"
  by (simp add: sarima_engine_def train_model_def train_sarima_def example_backends_def
      example_frame_def col_def init_def)

lemma sarima_engine_valid: "valid_handle sarima_engine"
  by (simp add: sarima_engine_eq valid_handle_def forecaster_ok_def)

lemma prophet_engine_eq:
  "prophet_engine =
     \<lparr>model = Some (ProphetModel (Some \<lparr>history_dates = [0, day_ns],
                                         predict_yhat = (\<lambda>ds. Inr (map (\<lambda>d. 11) ds))\<rparr>)),
      model_type = Some ''Prophet''\<rparr>"
  by (simp add: prophet_engine_def train_model_def train_prophet_def example_backends_def
      example_frame_def col_def init_def)

lemma arima_engine_valid: "valid_handle arima_engine"
  by (simp add: arima_engine_eq valid_handle_def forecaster_ok_def)

lemma prophet_engine_valid: "valid_handle prophet_engine"
  by (simp add: prophet_engine_eq valid_handle_def prophet_ok_def)

text \<open>
  Claim C3. For each supported model type (ARIMA, SARIMA, Prophet) and each horizon N among
  1, 7, 30 and 90, \<open>get_forecast\<close> on an engine holding a valid trained handle returns a
  series of exactly N values.
\<close>

theorem get_forecast_returns_N_values:
  assumes "valid_handle s" and "N \<in> {1, 7, 30, 90}"
  shows "\<exists>xs. get_forecast s N = Inr (Some xs) \<and> length xs = nat N"
proof -
  from assms(2) have "0 < N"
    by auto
  with assms(1) show ?thesis
    by (rule get_forecast_length)
qed

theorem get_forecast_returns_N_values_witness:
  "valid_handle arima_engine \<and> valid_handle sarima_engine \<and> valid_handle prophet_engine
   \<and> (7::int) \<in> {1, 7, 30, 90}
   \<and> (\<exists>xs. get_forecast arima_engine 7 = Inr (Some xs) \<and> length xs = 7)
   \<and> (\<exists>xs. get_forecast sarima_engine 7 = Inr (Some xs) \<and> length xs = 7)
   \<and> (\<exists>xs. get_forecast prophet_engine 7 = Inr (Some xs) \<and> length xs = 7)"
  using get_forecast_returns_N_values [of arima_engine 7]
    get_forecast_returns_N_values [of sarima_engine 7]
    get_forecast_returns_N_values [of prophet_engine 7]
    arima_engine_valid sarima_engine_valid prophet_engine_valid
  by simp

text \<open>
  On an engine that holds no model (a fresh engine, before any training assigned
  \<open>self.model\<close>), \<open>get_forecast\<close> raises the "Model not trained" error, whatever the
  \<open>periods\<close> argument.
\<close>

lemma get_forecast_no_model:
  assumes "model s = None"
  shows "get_forecast s periods = Inl NotTrainedError"
  using assms by (simp add: get_forecast_def NotTrainedError_def)

lemma get_forecast_init: "get_forecast init periods = Inl NotTrainedError"
  by (rule get_forecast_no_model) (simp add: init_def)

text \<open>
  Claim C4. An engine with no successful training behind it should answer \<open>get_forecast\<close>
  with the "Model not trained" error. The code does so only while \<open>self.model\<close> is \<open>None\<close>.
  The training methods assign \<open>self.model\<close> before they call \<open>fit\<close>; when \<open>fit\<close> raises, the
  unfitted object stays, the guard of \<open>get_forecast\<close> lets it pass, and the error that comes
  out is the library's: here on a fresh engine after one failed training, for Prophet and
  for ARIMA.
\<close>

theorem get_forecast_after_failed_fit:
  "fst (train_model failing_backends init one_row_frame ''Prophet'')
     = Inl (ValueError ''Dataframe has less than 2 non-NaN rows.'')
   \<and> get_forecast (snd (train_model failing_backends init one_row_frame ''Prophet'')) 30
     = Inl (Exception ''Model has not been fit.'')
   \<and> fst (train_model failing_backends init one_row_frame ''ARIMA'')
     = Inl (ValueError ''too few observations'')
   \<and> get_forecast (snd (train_model failing_backends init one_row_frame ''ARIMA'')) 30
     = Inl (AttributeError ''forecast'')
   \<and> Inl (Exception ''Model has not been fit.'') \<noteq> (Inl NotTrainedError :: py_error + real list option)
   \<and> Inl (AttributeError ''forecast'') \<noteq> (Inl NotTrainedError :: py_error + real list option)"
  by (simp add: train_model_def train_prophet_def train_arima_def failing_backends_def
      one_row_frame_def col_def init_def get_forecast_def NotTrainedError_def)

text \<open>
  Claim C5. For a model-type string other than ARIMA, SARIMA and Prophet, \<open>train_model\<close>
  raises the "Unsupported model type" error, for every back end, engine and modeling frame.
\<close>

theorem train_model_unsupported:
  assumes "mt \<notin> {''ARIMA'', ''SARIMA'', ''Prophet''}"
  shows "fst (train_model lib s df mt) = Inl (UnsupportedModelError mt)"
  using assms by (simp add: train_model_def UnsupportedModelError_def Let_def)

theorem train_model_unsupported_witness:
  "''LSTM'' \<notin> {''ARIMA'', ''SARIMA'', ''Prophet''}
   \<and> fst (train_model example_backends init example_frame ''LSTM'')
       = Inl (UnsupportedModelError ''LSTM'')"
  using train_model_unsupported [of "''LSTM''" example_backends init example_frame] by simp

text \<open>
  Claim C10. An unsupported model type given to an engine that already holds a model is
  recorded as the engine's model type before the error is raised, and the held model stays
  as it was; \<open>get_forecast\<close> on the engine so left returns \<open>None\<close>: no error, no series.
\<close>

theorem train_model_unsupported_then_forecast:
  assumes "model s = Some m" and "mt \<notin> {''ARIMA'', ''SARIMA'', ''Prophet''}"
  shows "fst (train_model lib s df mt) = Inl (UnsupportedModelError mt)
       \<and> model_type (snd (train_model lib s df mt)) = Some mt
       \<and> model (snd (train_model lib s df mt)) = Some m
       \<and> get_forecast (snd (train_model lib s df mt)) periods = Inr None"
  using assms
  by (simp add: train_model_def UnsupportedModelError_def Let_def get_forecast_def)

theorem train_model_unsupported_then_forecast_witness:
  "model arima_engine = Some (StatsResults (\<lambda>n. Inr (replicate (nat n) 11)))
   \<and> ''LSTM'' \<notin> {''ARIMA'', ''SARIMA'', ''Prophet''}
   \<and> model_type (snd (train_model example_backends arima_engine example_frame ''LSTM''))
       = Some ''LSTM''
   \<and> model (snd (train_model example_backends arima_engine example_frame ''LSTM''))
       = Some (StatsResults (\<lambda>n. Inr (replicate (nat n) 11)))
   \<and> get_forecast (snd (train_model example_backends arima_engine example_frame ''LSTM'')) 30
       = Inr None"
  using train_model_unsupported_then_forecast
    [of arima_engine "StatsResults (\<lambda>n. Inr (replicate (nat n) 11))" "''LSTM''"
        example_backends example_frame 30]
  by (simp add: arima_engine_eq)

section \<open>Properties of calculate_metrics\<close>

lemma nonneg_fadd: "nonneg x \<Longrightarrow> nonneg y \<Longrightarrow> nonneg (fadd x y)"
  by (cases x; cases y) simp_all

lemma inf_or_nan_fadd_left: "inf_or_nan x \<Longrightarrow> nonneg y \<Longrightarrow> inf_or_nan (fadd x y)"
  by (cases x; cases y) simp_all

lemma inf_or_nan_fadd_right: "nonneg x \<Longrightarrow> inf_or_nan y \<Longrightarrow> inf_or_nan (fadd x y)"
  by (cases x; cases y) simp_all

lemma foldl_fadd_inf_or_nan_acc:
  "inf_or_nan acc \<Longrightarrow> list_all nonneg xs \<Longrightarrow> inf_or_nan (foldl fadd acc xs)"
  by (induction xs arbitrary: acc) (simp_all add: inf_or_nan_fadd_left)

lemma foldl_fadd_inf_or_nan:
  "nonneg acc \<Longrightarrow> list_all nonneg xs \<Longrightarrow> list_ex inf_or_nan xs
     \<Longrightarrow> inf_or_nan (foldl fadd acc xs)"
proof (induction xs arbitrary: acc)
  case Nil
  then show ?case by simp
next
  case (Cons x xs)
  show ?case
  proof (cases "inf_or_nan x")
    case True
    with Cons.prems show ?thesis
      by (simp add: foldl_fadd_inf_or_nan_acc inf_or_nan_fadd_right)
  next
    case False
    with Cons.prems Cons.IH [of "fadd acc x"] show ?thesis
      by (simp add: nonneg_fadd)
  qed
qed

lemma inf_or_nan_scale:
  "inf_or_nan x \<Longrightarrow> 0 < n \<Longrightarrow> inf_or_nan (fmul (fdiv x (Finite n)) (Finite 100))"
  by (cases x) (simp_all add: signed_inf_def)

lemma inf_or_nan_cases: "inf_or_nan x \<Longrightarrow> x = PosInf \<or> x = NotANumber"
  by (cases x) simp_all

text \<open>A list of non-negative terms with an infinite or NaN one has an infinite or NaN mean.\<close>

lemma fmean_inf_or_nan:
  assumes "list_all nonneg ts" and "list_ex inf_or_nan ts"
  shows "inf_or_nan (fmul (fmean ts) (Finite 100))"
proof -
  from assms(2) have "ts \<noteq> []"
    by auto
  then have "0 < real (length ts)"
    by simp
  moreover have "inf_or_nan (fsum ts)"
    unfolding fsum_def using assms by (intro foldl_fadd_inf_or_nan) simp_all
  ultimately show ?thesis
    unfolding fmean_def by (intro inf_or_nan_scale)
qed

lemma nonneg_ape: "nonneg (absolute_percentage_error a p)"
  by (simp add: absolute_percentage_error_def)

text \<open>On finite values the three array operations of the MAPE line are the plain quotient.\<close>

lemma ape_term:
  "fabs (fdiv (fsub (Finite a) (Finite p)) (Finite a)) = absolute_percentage_error a p"
  by (simp add: fsub_def signed_inf_def absolute_percentage_error_def abs_divide)

lemma ape_terms:
  "map fabs (map2 fdiv (map2 fsub (map Finite xs) (map Finite ys)) (map Finite xs))
     = map2 absolute_percentage_error xs ys"
proof (induction xs arbitrary: ys)
  case Nil
  then show ?case by simp
next
  case (Cons x xs)
  then show ?case
    by (cases ys) (simp_all add: ape_term del: fabs.simps fdiv.simps)
qed

lemma map_Finite_the_finite: "list_all is_finite xs \<Longrightarrow> map Finite (map the_finite xs) = xs"
proof (induction xs)
  case Nil
  then show ?case by simp
next
  case (Cons x xs)
  then show ?case by (cases x) simp_all
qed

lemma check_reg_targets_Inr:
  "check_reg_targets a p = Inr v \<Longrightarrow>
     length a = length p \<and> a \<noteq> [] \<and> list_all is_finite a \<and> list_all is_finite p
     \<and> v = (map the_finite a, map the_finite p)"
  by (auto simp: check_reg_targets_def split: if_splits)

lemma calculate_metrics_Inr:
  assumes "calculate_metrics actual predicted = Inr m"
  shows "length (array_values actual) = length (array_values predicted)"
    and "array_values actual \<noteq> []"
    and "list_all is_finite (array_values actual)"
    and "list_all is_finite (array_values predicted)"
    and "MAPE m = fmul (np_mean (is_series actual \<or> is_series predicted)
           (map2 absolute_percentage_error (map the_finite (array_values actual))
              (map the_finite (array_values predicted)))) (Finite 100)"
proof -
  let ?a = "array_values actual" and ?p = "array_values predicted"
  from assms obtain mse where "mean_squared_error ?a ?p = Inr mse"
    by (auto simp: calculate_metrics_def Let_def split: sum.splits)
  then obtain v where "check_reg_targets ?a ?p = Inr v"
    by (auto simp: mean_squared_error_def split: sum.splits)
  from check_reg_targets_Inr [OF this]
  show len: "length ?a = length ?p" and "?a \<noteq> []"
    and fa: "list_all is_finite ?a" and fp: "list_all is_finite ?p"
    by simp_all
  have "map fabs (map2 fdiv (map2 fsub ?a ?p) ?a)
      = map2 absolute_percentage_error (map the_finite ?a) (map the_finite ?p)"
    using ape_terms [of "map the_finite ?a" "map the_finite ?p"]
    by (simp only: map_Finite_the_finite [OF fa] map_Finite_the_finite [OF fp])
  moreover from assms have "MAPE m = fmul (np_mean (is_series actual \<or> is_series predicted)
      (map fabs (map2 fdiv (map2 fsub ?a ?p) ?a))) (Finite 100)"
    by (auto simp: calculate_metrics_def Let_def split: sum.splits)
  ultimately show "MAPE m = fmul (np_mean (is_series actual \<or> is_series predicted)
           (map2 absolute_percentage_error (map the_finite ?a) (map the_finite ?p))) (Finite 100)"
    by simp
qed

lemma list_all_nonneg_ape: "list_all nonneg (map2 absolute_percentage_error xs ys)"
  by (auto simp: list_all_iff nonneg_ape)

lemma ape_zero_inf_or_nan:
  assumes "i < length xs" and "length xs = length ys" and "xs ! i = 0"
  shows "list_ex inf_or_nan (map2 absolute_percentage_error xs ys)"
proof -
  let ?T = "map2 absolute_percentage_error xs ys"
  have "i < length ?T" using assms by simp
  moreover have "inf_or_nan (?T ! i)"
    using assms by (simp add: absolute_percentage_error_def)
  ultimately have "\<exists>t\<in>set ?T. inf_or_nan t"
    by (metis nth_mem)
  then show ?thesis
    by (simp add: list_ex_iff)
qed

lemma ape_zero_nonzero_PosInf:
  assumes "i < length xs" and "length xs = length ys" and "xs ! i = 0" and "ys ! i \<noteq> 0"
  shows "PosInf \<in> set (map2 absolute_percentage_error xs ys)"
proof -
  let ?T = "map2 absolute_percentage_error xs ys"
  have "i < length ?T" using assms by simp
  moreover have "?T ! i = PosInf"
    using assms by (simp add: absolute_percentage_error_def)
  ultimately show ?thesis
    by (metis nth_mem)
qed

lemma np_mean_inf_or_nan:
  assumes "list_all nonneg ts" and "PosInf \<in> set ts"
  shows "inf_or_nan (fmul (np_mean series ts) (Finite 100))"
proof (cases series)
  case True
  let ?F = "filter (\<lambda>x. x \<noteq> NotANumber) ts"
  have "list_all nonneg ?F"
    using assms(1) by (simp add: list_all_iff)
  moreover have "list_ex inf_or_nan ?F"
    using assms(2) by (auto simp: list_ex_iff intro!: bexI [of _ PosInf])
  ultimately show ?thesis
    using True by (simp add: np_mean_def fmean_inf_or_nan)
next
  case False
  have "list_ex inf_or_nan ts"
    using assms(2) by (auto simp: list_ex_iff intro!: bexI [of _ PosInf])
  with assms(1) False show ?thesis
    by (simp add: np_mean_def fmean_inf_or_nan)
qed

text \<open>
  Claim C6, amended. When the call returns, the MAPE is 100 times the mean of the
  elementwise quotients \<open>|(actual - predicted) / actual|\<close>, with no special case for a zero.
  With two numpy arrays, an actual value of exactly zero makes the MAPE infinite or NaN.
  With a Series among the arguments the mean leaves NaN terms out: a zero actual value
  whose prediction is not zero still makes the MAPE infinite, while a zero over zero is
  dropped from the mean.
\<close>

theorem calculate_metrics_zero_actual:
  "case calculate_metrics actual predicted of
     Inl e \<Rightarrow> True
   | Inr m \<Rightarrow>
       MAPE m = fmul (np_mean (is_series actual \<or> is_series predicted)
                  (map2 absolute_percentage_error (map the_finite (array_values actual))
                     (map the_finite (array_values predicted)))) (Finite 100)
       \<and> (Finite 0 \<in> set (array_values actual) \<and> \<not> is_series actual \<and> \<not> is_series predicted
            \<longrightarrow> MAPE m = PosInf \<or> MAPE m = NotANumber)
       \<and> ((\<exists>i < length (array_values actual).
              array_values actual ! i = Finite 0 \<and> array_values predicted ! i \<noteq> Finite 0)
            \<longrightarrow> MAPE m = PosInf \<or> MAPE m = NotANumber)"
proof (cases "calculate_metrics actual predicted")
  case (Inl e)
  then show ?thesis by simp
next
  case (Inr m)
  let ?a = "array_values actual" and ?p = "array_values predicted"
  let ?xs = "map the_finite ?a" and ?ys = "map the_finite ?p"
  let ?T = "map2 absolute_percentage_error ?xs ?ys"
  note facts = calculate_metrics_Inr [OF Inr]
  have len: "length ?xs = length ?ys"
    using facts(1) by simp
  have nn: "list_all nonneg ?T"
    by (rule list_all_nonneg_ape)
  have plain: "MAPE m = PosInf \<or> MAPE m = NotANumber"
    if "Finite 0 \<in> set ?a" "\<not> is_series actual" "\<not> is_series predicted"
  proof -
    from that(1) obtain i where i: "i < length ?a" "?a ! i = Finite 0"
      by (auto simp: in_set_conv_nth)
    then have "i < length ?xs" "?xs ! i = 0"
      by simp_all
    then have "list_ex inf_or_nan ?T"
      using len by (intro ape_zero_inf_or_nan)
    with nn have "inf_or_nan (fmul (fmean ?T) (Finite 100))"
      by (rule fmean_inf_or_nan)
    with that(2,3) facts(5) show ?thesis
      by (simp add: np_mean_def inf_or_nan_cases)
  qed
  have nonzero: "MAPE m = PosInf \<or> MAPE m = NotANumber"
    if "\<exists>i < length ?a. ?a ! i = Finite 0 \<and> ?p ! i \<noteq> Finite 0"
  proof -
    from that obtain i where i: "i < length ?a" "?a ! i = Finite 0" "?p ! i \<noteq> Finite 0"
      by blast
    from i(1) facts(1) have ip: "i < length ?p"
      by simp
    with facts(4) have "is_finite (?p ! i)"
      by (simp add: list_all_length)
    with i(3) have "the_finite (?p ! i) \<noteq> 0"
      by (cases "?p ! i") simp_all
    with i ip have "i < length ?xs" "?xs ! i = 0" "?ys ! i \<noteq> 0"
      by simp_all
    then have "PosInf \<in> set ?T"
      using len by (intro ape_zero_nonzero_PosInf)
    with nn have "inf_or_nan (fmul (np_mean (is_series actual \<or> is_series predicted) ?T) (Finite 100))"
      by (rule np_mean_inf_or_nan)
    with facts(5) show ?thesis
      by (simp add: inf_or_nan_cases)
  qed
  from facts(5) plain nonzero Inr show ?thesis
    by simp
qed

theorem calculate_metrics_zero_actual_witness:
  "calculate_metrics (NdArray [Finite 0, Finite 5]) (Series [Finite 1, Finite 5])
     = Inr \<lparr>RMSE = Finite (sqrt (1 / 2)), MAE = Finite (1 / 2), MAPE = PosInf,
            R2 = Finite (23 / 25)\<rparr>
   \<and> PosInf = fmul (np_mean True (map2 absolute_percentage_error [0, 5] [1, 5])) (Finite 100)
   \<and> calculate_metrics (NdArray [Finite 0, Finite 5]) (NdArray [Finite 0, Finite 4])
     = Inr \<lparr>RMSE = Finite (sqrt (1 / 2)), MAE = Finite (1 / 2), MAPE = NotANumber,
            R2 = Finite (23 / 25)\<rparr>"
  using calculate_metrics_zero_actual [of "NdArray [Finite 0, Finite 5]" "Series [Finite 1, Finite 5]"]
    calculate_metrics_zero_actual [of "NdArray [Finite 0, Finite 5]" "NdArray [Finite 0, Finite 4]"]
  by (simp add: calculate_metrics_def mean_squared_error_def mean_absolute_error_def
      r2_score_def check_reg_targets_def mean_def np_mean_def fmean_def fsum_def fsub_def
      signed_inf_def power2_eq_square absolute_percentage_error_def)

text \<open>
  The claim as first stated fails on the kind of arguments app.py passes: the zero actual
  value meets a zero prediction, its NaN term is left out, and the MAPE is 20.
\<close>

theorem calculate_metrics_zero_actual_counterexample:
  "calculate_metrics (NdArray [Finite 0, Finite 5]) (Series [Finite 0, Finite 4])
     = Inr \<lparr>RMSE = Finite (sqrt (1 / 2)), MAE = Finite (1 / 2), MAPE = Finite 20,
            R2 = Finite (23 / 25)\<rparr>"
  by (simp add: calculate_metrics_def mean_squared_error_def mean_absolute_error_def
      r2_score_def check_reg_targets_def mean_def np_mean_def fmean_def fsum_def fsub_def
      signed_inf_def power2_eq_square)

lemma foldl_fadd_zeros: "foldl fadd (Finite 0) (map (\<lambda>x. Finite 0) xs) = Finite 0"
  by (induction xs) simp_all

lemma foldl_fadd_NaN: "foldl fadd NotANumber ts = NotANumber"
  by (induction ts) simp_all

lemma foldl_fadd_zero_or_NaN:
  "0 \<in> set xs \<Longrightarrow>
     foldl fadd (Finite 0) (map (\<lambda>x. if x = 0 then NotANumber else Finite 0) xs) = NotANumber"
proof (induction xs)
  case Nil
  then show ?case by simp
next
  case (Cons x xs)
  then show ?case
    by (cases "x = 0") (simp_all add: foldl_fadd_NaN)
qed

lemma ape_identical_terms:
  "map2 absolute_percentage_error xs xs = map (\<lambda>x. if x = (0::real) then NotANumber else Finite 0) xs"
  by (simp add: zip_same_conv_map absolute_percentage_error_def)

lemma filter_identical_terms:
  "filter (\<lambda>t. t \<noteq> NotANumber) (map (\<lambda>x. if x = (0::real) then NotANumber else Finite 0) xs)
     = map (\<lambda>x. Finite 0) (filter (\<lambda>x. x \<noteq> 0) xs)"
  by (induction xs) simp_all

text \<open>The MAPE of identical arrays.\<close>

lemma mape_identical:
  assumes "xs \<noteq> []"
  shows "fmul (np_mean series (map2 absolute_percentage_error xs xs)) (Finite 100)
           = (if 0 \<notin> set xs then Finite 0
              else if series \<and> (\<exists>x\<in>set xs. x \<noteq> 0) then Finite 0
              else NotANumber)"
proof (cases series)
  case True
  let ?nz = "filter (\<lambda>x. x \<noteq> 0) xs"
  have m: "np_mean True (map2 absolute_percentage_error xs xs)
             = fdiv (Finite 0) (Finite (real (length ?nz)))"
    by (simp add: np_mean_def ape_identical_terms filter_identical_terms fmean_def fsum_def
        foldl_fadd_zeros)
  show ?thesis
  proof (cases "\<exists>x\<in>set xs. x \<noteq> 0")
    case ex: True
    then have "?nz \<noteq> []"
      by (simp add: filter_empty_conv)
    then have "fmul (np_mean True (map2 absolute_percentage_error xs xs)) (Finite 100) = Finite 0"
      by (simp add: m)
    with True ex show ?thesis
      by simp
  next
    case all: False
    then have "?nz = []"
      by (simp add: filter_empty_conv)
    then have "fmul (np_mean True (map2 absolute_percentage_error xs xs)) (Finite 100)
        = NotANumber"
      by (simp add: m signed_inf_def)
    moreover from all assms have "0 \<in> set xs"
      by (cases xs) auto
    ultimately show ?thesis
      using True all by simp
  qed
next
  case False
  show ?thesis
  proof (cases "0 \<in> set xs")
    case z: True
    then show ?thesis
      using False
      by (simp add: np_mean_def ape_identical_terms fmean_def fsum_def foldl_fadd_zero_or_NaN)
  next
    case nz: False
    then have eq: "map (\<lambda>x. if x = 0 then NotANumber else Finite 0) xs = map (\<lambda>x. Finite 0) xs"
      by (intro map_cong) auto
    have "fmul (np_mean False (map2 absolute_percentage_error xs xs)) (Finite 100) = Finite 0"
      unfolding np_mean_def ape_identical_terms eq using assms
      by (simp add: fmean_def fsum_def foldl_fadd_zeros)
    with nz False show ?thesis
      by simp
  qed
qed

lemma check_reg_targets_finite:
  "xs \<noteq> [] \<Longrightarrow> check_reg_targets (map Finite xs) (map Finite xs) = Inr (xs, xs)"
  by (simp add: check_reg_targets_def list_all_iff comp_def)

lemma map2_same: "map2 f xs xs = map (\<lambda>x. f x x) xs"
  by (simp add: zip_same_conv_map)

text \<open>
  Claim C2, amended. For identical arrays of finite values, \<open>calculate_metrics\<close> rejects
  the empty pair and otherwise returns RMSE = 0 and MAE = 0; R2 = 1 from two samples on and
  NaN for a single sample; MAPE = 0 when no value is zero. With a zero among the values the
  MAPE is NaN for two numpy arrays; with a Series among the arguments the zero-over-zero
  terms are left out and the MAPE is 0, unless every value is zero, when it is NaN.
\<close>

theorem calculate_metrics_identical:
  assumes "array_values actual = map Finite xs" and "array_values predicted = map Finite xs"
  shows "if xs = [] then \<exists>e. calculate_metrics actual predicted = Inl e
         else calculate_metrics actual predicted
           = Inr \<lparr>RMSE = Finite 0, MAE = Finite 0,
                  MAPE = (if 0 \<notin> set xs then Finite 0
                          else if (is_series actual \<or> is_series predicted) \<and> (\<exists>x\<in>set xs. x \<noteq> 0)
                            then Finite 0
                          else NotANumber),
                  R2 = (if 2 \<le> length xs then Finite 1 else NotANumber)\<rparr>"
proof (cases "xs = []")
  case True
  with assms show ?thesis
    by (simp add: calculate_metrics_def mean_squared_error_def check_reg_targets_def)
next
  case ne: False
  let ?v = "map Finite xs"
  have chk: "check_reg_targets ?v ?v = Inr (xs, xs)"
    using ne by (rule check_reg_targets_finite)
  have mse: "mean_squared_error ?v ?v = Inr 0"
    by (simp add: mean_squared_error_def chk map2_same mean_def)
  have mae: "mean_absolute_error ?v ?v = Inr 0"
    by (simp add: mean_absolute_error_def chk map2_same mean_def)
  have r2: "r2_score ?v ?v = Inr (if 2 \<le> length xs then Finite 1 else NotANumber)"
    by (simp add: r2_score_def chk map2_same)
  have mape: "fmul (np_mean (is_series actual \<or> is_series predicted)
                (map fabs (map2 fdiv (map2 fsub ?v ?v) ?v))) (Finite 100)
      = (if 0 \<notin> set xs then Finite 0
         else if (is_series actual \<or> is_series predicted) \<and> (\<exists>x\<in>set xs. x \<noteq> 0) then Finite 0
         else NotANumber)"
    unfolding ape_terms using ne by (rule mape_identical)
  show ?thesis
    using ne unfolding calculate_metrics_def Let_def assms mse mae r2 mape by simp
qed

theorem calculate_metrics_identical_witness:
  "array_values (NdArray [Finite 3, Finite 5]) = map Finite [3, 5]
   \<and> array_values (Series [Finite 3, Finite 5]) = map Finite [3, 5]
   \<and> calculate_metrics (NdArray [Finite 3, Finite 5]) (Series [Finite 3, Finite 5])
       = Inr \<lparr>RMSE = Finite 0, MAE = Finite 0, MAPE = Finite 0, R2 = Finite 1\<rparr>
   \<and> calculate_metrics (NdArray [Finite 0, Finite 5]) (Series [Finite 0, Finite 5])
       = Inr \<lparr>RMSE = Finite 0, MAE = Finite 0, MAPE = Finite 0, R2 = Finite 1\<rparr>"
  using calculate_metrics_identical [of "NdArray [Finite 3, Finite 5]" "[3, 5]" "Series [Finite 3, Finite 5]"]
    calculate_metrics_identical [of "NdArray [Finite 0, Finite 5]" "[0, 5]" "Series [Finite 0, Finite 5]"]
  by simp

text \<open>
  The claim as first stated, with MAPE = 0 and R2 = 1 for all identical arrays, fails: on a
  zero in two numpy arrays, on all zeros with a Series, on a single sample, and on the empty
  pair.
\<close>

theorem calculate_metrics_identical_counterexample:
  "calculate_metrics (NdArray [Finite 0, Finite 5]) (NdArray [Finite 0, Finite 5])
     = Inr \<lparr>RMSE = Finite 0, MAE = Finite 0, MAPE = NotANumber, R2 = Finite 1\<rparr>
   \<and> calculate_metrics (NdArray [Finite 0, Finite 0]) (Series [Finite 0, Finite 0])
     = Inr \<lparr>RMSE = Finite 0, MAE = Finite 0, MAPE = NotANumber, R2 = Finite 1\<rparr>
   \<and> calculate_metrics (NdArray [Finite 5]) (Series [Finite 5])
     = Inr \<lparr>RMSE = Finite 0, MAE = Finite 0, MAPE = Finite 0, R2 = NotANumber\<rparr>
   \<and> calculate_metrics (NdArray []) (Series []) = Inl (ValueError ''Found array with 0 sample(s)'')"
  by (simp add: calculate_metrics_def mean_squared_error_def mean_absolute_error_def
      r2_score_def check_reg_targets_def mean_def np_mean_def fmean_def fsum_def fsub_def
      signed_inf_def)

section \<open>Properties of the data processor\<close>

subsection \<open>Columns of a frame\<close>

lemma index_of_less: "x \<in> set xs \<Longrightarrow> index_of x xs < length xs"
  by (induction xs) auto

lemma nth_index_of: "x \<in> set xs \<Longrightarrow> xs ! index_of x xs = x"
  by (induction xs) auto

lemma index_of_append: "x \<in> set xs \<Longrightarrow> index_of x (xs @ ys) = index_of x xs"
  by (induction xs) auto

lemma col_length: "col n df = Inr c \<Longrightarrow> length c = length (rows df)"
  by (auto simp: col_def split: if_splits)

lemma map_nth_map2:
  assumes "length rs = length vs" and "\<And>r v. r \<in> set rs \<Longrightarrow> g r v ! i = r ! i"
  shows "map (\<lambda>r. r ! i) (map2 g rs vs) = map (\<lambda>r. r ! i) rs"
  using assms by (induction rs vs rule: list_induct2) auto

lemma length_rows_set_col:
  "length vals = length (rows df) \<Longrightarrow> length (rows (set_col n vals df)) = length (rows df)"
  by (simp add: set_col_def)

lemma rectangular_set_col:
  assumes "rectangular df" and "length vals = length (rows df)"
  shows "rectangular (set_col n vals df)"
  using assms
  by (auto simp: rectangular_def set_col_def list_all_iff dest!: set_zip_leftD)

lemma col_set_col_other:
  assumes "n \<noteq> m" and "rectangular df" and "length vals = length (rows df)"
  shows "col m (set_col n vals df) = col m df"
proof (cases "m \<in> set (columns df)")
  case False
  with assms(1) show ?thesis
    by (simp add: col_def set_col_def)
next
  case True
  let ?i = "index_of m (columns df)"
  have i: "?i < length (columns df)" "columns df ! ?i = m"
    using True by (simp_all add: index_of_less nth_index_of)
  have len: "\<And>r. r \<in> set (rows df) \<Longrightarrow> length r = length (columns df)"
    using assms(2) by (simp add: rectangular_def list_all_iff)
  show ?thesis
  proof (cases "n \<in> set (columns df)")
    case n: True
    have "map (\<lambda>r. r ! ?i)
            (map2 (\<lambda>r v. map2 (\<lambda>c x. if c = n then v else x) (columns df) r) (rows df) vals)
          = map (\<lambda>r. r ! ?i) (rows df)"
      using assms(3) i assms(1) len by (intro map_nth_map2) simp_all
    with n show ?thesis
      by (simp add: col_def set_col_def)
  next
    case n: False
    have "map (\<lambda>r. r ! ?i) (map2 (\<lambda>r v. r @ [v]) (rows df) vals) = map (\<lambda>r. r ! ?i) (rows df)"
      using assms(3) i len by (intro map_nth_map2) (simp_all add: nth_append)
    with n True assms(1) show ?thesis
      by (simp add: col_def set_col_def index_of_append)
  qed
qed

lemma map_nth_map2_same:
  assumes "length rs = length vs" and "\<And>r v. r \<in> set rs \<Longrightarrow> g r v ! i = v"
  shows "map (\<lambda>r. r ! i) (map2 g rs vs) = vs"
  using assms by (induction rs vs rule: list_induct2) auto

lemma index_of_new: "x \<notin> set xs \<Longrightarrow> index_of x (xs @ [x]) = length xs"
  by (induction xs) auto

lemma col_set_col_same:
  assumes "rectangular df" and "length vals = length (rows df)"
    and "count_list (columns df) n \<le> 1"
  shows "col n (set_col n vals df) = Inr vals"
proof (cases "n \<in> set (columns df)")
  case True
  let ?i = "index_of n (columns df)"
  have i: "?i < length (columns df)" "columns df ! ?i = n"
    using True by (simp_all add: index_of_less nth_index_of)
  have len: "\<And>r. r \<in> set (rows df) \<Longrightarrow> length r = length (columns df)"
    using assms(1) by (simp add: rectangular_def list_all_iff)
  have "map (\<lambda>r. r ! ?i)
          (map2 (\<lambda>r v. map2 (\<lambda>c x. if c = n then v else x) (columns df) r) (rows df) vals)
        = vals"
    using assms(2) i len by (intro map_nth_map2_same) simp_all
  with True assms(3) show ?thesis
    by (simp add: col_def set_col_def)
next
  case False
  then have c: "count_list (columns df) n = 0"
    by (simp add: count_list_0_iff)
  have "map (\<lambda>r. r ! length (columns df)) (map2 (\<lambda>r v. r @ [v]) (rows df) vals) = vals"
    using assms(1,2)
    by (intro map_nth_map2_same) (simp_all add: rectangular_def list_all_iff nth_append)
  with False c show ?thesis
    by (simp add: col_def set_col_def index_of_new)
qed

lemma count_list_columns_set_col:
  "count_list (columns (set_col n vals df)) m
     = (if m = n \<and> n \<notin> set (columns df) then 1 else count_list (columns df) m)"
  by (auto simp: set_col_def count_list_0_iff)

subsection \<open>load_data\<close>

lemma rename_column_mapping:
  "rename column_mapping df =
     df\<lparr>columns := map (\<lambda>c. if c = ''Date'' then ''timestamp''
                            else if c = ''AudienceCount'' then ''audience_count''
                            else if c = ''Platform'' then ''platform'' else c) (columns df)\<rparr>"
  by (simp add: rename_def column_mapping_def)

text \<open>
  Claim C7. On a parsed table, \<open>load_data\<close> raises the missing-columns error exactly when
  one of Date, AudienceCount and Platform is not among the labels; otherwise it returns the
  table with these three labels renamed to timestamp, audience_count and platform, every
  other label and every row as they were.
\<close>

theorem load_data_schema:
  "load_data (Inr df) =
     (if {''Date'', ''AudienceCount'', ''Platform''} \<subseteq> set (columns df)
      then Inr (df\<lparr>columns := map (\<lambda>c. if c = ''Date'' then ''timestamp''
                                      else if c = ''AudienceCount'' then ''audience_count''
                                      else if c = ''Platform'' then ''platform'' else c)
                                 (columns df)\<rparr>)
      else Inl SchemaError)"
  by (simp add: load_data_def required_columns_def rename_column_mapping SchemaError_def)

theorem load_data_schema_witness:
  "load_data (Inr raw_table)
     = Inr (raw_table\<lparr>columns := [''timestamp'', ''platform'', ''audience_count'',
                                    ''EngagementRate'', ''ConversionRate'', ''ForecastError'']\<rparr>)
   \<and> load_data (Inr (raw_table\<lparr>columns := [''date'', ''Platform'', ''AudienceCount'']\<rparr>))
     = Inl SchemaError"
  using load_data_schema [of raw_table]
    load_data_schema [of "raw_table\<lparr>columns := [''date'', ''Platform'', ''AudienceCount'']\<rparr>"]
  by (simp add: raw_table_def)

subsection \<open>preprocess_data\<close>

lemma to_datetime_cells:
  "to_datetime parse cs = Inr ds \<Longrightarrow>
     length ds = length cs \<and> list_all (\<lambda>d. is_timestamp d \<or> d = NaT) ds"
proof (induction cs arbitrary: ds)
  case Nil
  then show ?case by (simp add: to_datetime_def)
next
  case (Cons c cs)
  from Cons.prems obtain d ds' where "to_datetime parse cs = Inr ds'"
    and "ds = (case d of None \<Rightarrow> NaT | Some t \<Rightarrow> Timestamp t) # ds'"
    by (auto simp: to_datetime_def split: sum.splits)
  with Cons.IH [of ds'] show ?case
    by (auto split: option.splits)
qed

lemma sorted_wrt_ts_le_timestamps:
  "list_all is_timestamp xs \<Longrightarrow> sorted (map the_timestamp xs) \<Longrightarrow> sorted_wrt ts_le xs"
proof (induction xs)
  case Nil
  then show ?case by simp
next
  case (Cons x xs)
  have "ts_le x y" if "y \<in> set xs" for y
  proof -
    from that Cons.prems have "is_timestamp x" "is_timestamp y" "the_timestamp x \<le> the_timestamp y"
      by (auto simp: list_all_iff)
    then show ?thesis
      by (cases x; cases y) simp_all
  qed
  with Cons show ?case
    by simp
qed

lemma sorted_wrt_ts_le_NaT: "list_all (\<lambda>d. d = NaT) xs \<Longrightarrow> sorted_wrt ts_le xs"
  by (induction xs) (auto simp: list_all_iff)

text \<open>The order \<open>sort_values\<close> leaves a timestamp column in.\<close>

lemma sorted_wrt_ts_le_sort:
  assumes "list_all (\<lambda>d. is_timestamp d \<or> d = NaT) (map fst keyed)"
  shows "sorted_wrt ts_le
           (map fst (sort_key (\<lambda>kr. the_timestamp (fst kr)) (filter (\<lambda>kr. is_timestamp (fst kr)) keyed)
                     @ filter (\<lambda>kr. \<not> is_timestamp (fst kr)) keyed))"
proof -
  let ?dated = "sort_key (\<lambda>kr. the_timestamp (fst kr)) (filter (\<lambda>kr. is_timestamp (fst kr)) keyed)"
  let ?rest = "filter (\<lambda>kr. \<not> is_timestamp (fst kr)) keyed"
  have d: "list_all is_timestamp (map fst ?dated)"
    by (simp add: list_all_iff)
  have "sorted (map the_timestamp (map fst ?dated))"
    using sorted_sort_key [of "\<lambda>kr. the_timestamp (fst kr)"] by (simp add: comp_def)
  with d have 1: "sorted_wrt ts_le (map fst ?dated)"
    by (rule sorted_wrt_ts_le_timestamps)
  have r: "list_all (\<lambda>d. d = NaT) (map fst ?rest)"
    using assms by (auto simp: list_all_iff)
  then have 2: "sorted_wrt ts_le (map fst ?rest)"
    by (rule sorted_wrt_ts_le_NaT)
  have 3: "ts_le x y" if "x \<in> set (map fst ?dated)" "y \<in> set (map fst ?rest)" for x y
  proof -
    from that d r have "is_timestamp x" "y = NaT"
      by (auto simp: list_all_iff)
    then show ?thesis
      by (cases x) simp_all
  qed
  from 1 2 3 show ?thesis
    by (simp add: sorted_wrt_append del: set_map)
qed

lemma sort_values_timestamp_sorted:
  assumes "sort_values_timestamp df = Inr df'" and "rectangular df"
    and "col ''timestamp'' df = Inr ts" and "list_all (\<lambda>d. is_timestamp d \<or> d = NaT) ts"
  shows "rectangular df' \<and> length (rows df') = length (rows df) \<and> columns df' = columns df
       \<and> (\<exists>ts'. col ''timestamp'' df' = Inr ts' \<and> sorted_wrt ts_le ts')"
proof -
  let ?i = "index_of ''timestamp'' (columns df)"
  let ?keyed = "zip ts (rows df)"
  let ?L = "sort_key (\<lambda>kr. the_timestamp (fst kr)) (filter (\<lambda>kr. is_timestamp (fst kr)) ?keyed)
            @ filter (\<lambda>kr. \<not> is_timestamp (fst kr)) ?keyed"
  from assms(3) have ts: "ts = map (\<lambda>r. r ! ?i) (rows df)"
    and present: "''timestamp'' \<in> set (columns df)" "\<not> 1 < count_list (columns df) ''timestamp''"
    by (auto simp: col_def split: if_splits)
  have keyed: "?keyed = map (\<lambda>r. (r ! ?i, r)) (rows df)"
    unfolding ts by (simp add: zip_map1 zip_same_conv_map)
  from assms(1,3) have df': "df' = df\<lparr>rows := map snd ?L\<rparr>"
    by (simp add: sort_values_timestamp_def Let_def)
  have setL: "set ?L = set ?keyed"
    by auto
  have rect: "rectangular df'"
    using assms(2) unfolding df' rectangular_def list_all_iff
    by (auto simp del: set_zip dest!: set_zip_rightD)
  have "length ?L = length ?keyed"
    by (simp add: sum_length_filter_compl)
  then have len: "length (rows df') = length (rows df)"
    unfolding df' using ts by simp
  have "map (\<lambda>r. r ! ?i) (map snd ?L) = map fst ?L"
  proof -
    have "\<forall>kr \<in> set ?L. snd kr ! ?i = fst kr"
      unfolding setL keyed by auto
    then show ?thesis
      by (simp del: map_append set_append)
  qed
  then have c: "col ''timestamp'' df' = Inr (map fst ?L)"
    using present unfolding df' by (simp add: col_def)
  have "list_all (\<lambda>d. is_timestamp d \<or> d = NaT) (map fst ?keyed)"
    using assms(4) ts by simp
  then have "sorted_wrt ts_le (map fst ?L)"
    by (rule sorted_wrt_ts_le_sort)
  with rect len c show ?thesis
    unfolding df' by simp
qed

lemma set_cols_keeps:
  assumes "m \<notin> set ns" and "rectangular df"
    and "list_all (\<lambda>c. length c = length (rows df)) cs"
  shows "rectangular (set_cols ns cs df) \<and> length (rows (set_cols ns cs df)) = length (rows df)
       \<and> col m (set_cols ns cs df) = col m df"
  using assms
proof (induction ns cs df rule: set_cols.induct)
  case (1 n ns c cs df)
  from "1.prems" have "n \<noteq> m" "length c = length (rows df)"
    by auto
  with "1.prems" have "rectangular (set_col n c df)"
    "length (rows (set_col n c df)) = length (rows df)"
    "col m (set_col n c df) = col m df"
    by (simp_all add: rectangular_set_col length_rows_set_col col_set_col_other)
  with "1.IH" "1.prems" show ?case
    by simp
qed simp_all

lemma preprocess_data_sorted:
  assumes "preprocess_data parse fit_transform df = Inr out" and "rectangular df"
  shows "\<exists>ts. col ''timestamp'' out = Inr ts \<and> sorted_wrt ts_le ts"
proof -
  from assms(1) obtain raw where raw: "col ''timestamp'' df = Inr raw"
    by (auto simp: preprocess_data_def split: sum.splits)
  from assms(1) raw obtain ts where ts: "to_datetime parse raw = Inr ts"
    by (auto simp: preprocess_data_def split: sum.splits)
  define df0 where "df0 = set_col ''timestamp'' ts df"
  from assms(1) raw ts obtain df1 where df1: "sort_values_timestamp df0 = Inr df1"
    by (auto simp: preprocess_data_def df0_def split: sum.splits)
  from assms(1) raw ts df1 obtain block where block: "cols numeric_columns df1 = Inr block"
    by (auto simp: preprocess_data_def df0_def split: sum.splits)
  from assms(1) raw ts df1 block obtain imputed where imputed: "fit_transform block = Inr imputed"
    by (auto simp: preprocess_data_def df0_def split: sum.splits)
  from assms(1) raw ts df1 block imputed
  have shape: "list_all (\<lambda>c. length c = length (rows df1)) imputed"
    by (auto simp: preprocess_data_def df0_def split: sum.splits if_splits)
  define df2 where "df2 = set_cols numeric_columns (map (map Num) imputed) df1"
  from assms(1) raw ts df1 block imputed shape obtain t where t: "col ''timestamp'' df2 = Inr t"
    by (auto simp: preprocess_data_def df0_def df2_def Let_def split: sum.splits if_splits)
  define df3 where "df3 = set_col ''hour'' (map dt_hour t) df2"
  define df4 where "df4 = set_col ''day_of_week'' (map dt_dayofweek t) df3"
  define df5 where "df5 = set_col ''month'' (map dt_month t) df4"
  from assms(1) raw ts df1 block imputed shape t obtain dow where dow: "col ''day_of_week'' df5 = Inr dow"
    by (auto simp: preprocess_data_def df0_def df2_def df3_def df4_def df5_def Let_def
        split: sum.splits if_splits)
  define df6 where "df6 = set_col ''is_weekend'' (map isin_5_6 dow) df5"
  from assms(1) raw ts df1 block imputed shape t dow obtain hour where hour: "col ''hour'' df6 = Inr hour"
    and out: "out = set_col ''is_prime_time'' (map between_19_22 hour) df6"
    by (auto simp: preprocess_data_def df0_def df2_def df3_def df4_def df5_def df6_def Let_def
        split: sum.splits if_splits)
  \<comment> \<open>the converted column\<close>
  have len_raw: "length raw = length (rows df)"
    using raw by (rule col_length)
  from to_datetime_cells [OF ts] len_raw
  have len_ts: "length ts = length (rows df)"
    and cells: "list_all (\<lambda>d. is_timestamp d \<or> d = NaT) ts"
    by simp_all
  from raw have "count_list (columns df) ''timestamp'' \<le> 1"
    by (auto simp: col_def split: if_splits)
  with assms(2) len_ts have c0: "col ''timestamp'' df0 = Inr ts"
    unfolding df0_def by (simp add: col_set_col_same)
  have r0: "rectangular df0"
    unfolding df0_def using assms(2) len_ts by (rule rectangular_set_col)
  \<comment> \<open>sorted\<close>
  from sort_values_timestamp_sorted [OF df1 r0 c0 cells]
  obtain ts' where r1: "rectangular df1" and c1: "col ''timestamp'' df1 = Inr ts'"
    and sorted: "sorted_wrt ts_le ts'"
    by auto
  \<comment> \<open>the later assignments leave the column as it is\<close>
  have shape': "list_all (\<lambda>c. length c = length (rows df1)) (map (map Num) imputed)"
    using shape by (simp add: list_all_iff)
  have "''timestamp'' \<notin> set numeric_columns"
    by (simp add: numeric_columns_def)
  from set_cols_keeps [OF this r1 shape']
  have r2: "rectangular df2" and c2: "col ''timestamp'' df2 = Inr ts'"
    unfolding df2_def using c1 by simp_all
  from c2 t have t_eq: "t = ts'"
    by simp
  have l2: "length t = length (rows df2)"
    using t by (rule col_length)
  have r3: "rectangular df3" and l3: "length (rows df3) = length (rows df2)"
    and c3: "col ''timestamp'' df3 = Inr ts'"
    unfolding df3_def using r2 l2 c2
    by (simp_all add: rectangular_set_col length_rows_set_col col_set_col_other)
  have r4: "rectangular df4" and l4: "length (rows df4) = length (rows df2)"
    and c4: "col ''timestamp'' df4 = Inr ts'"
    unfolding df4_def using r3 l3 l2 c3
    by (simp_all add: rectangular_set_col length_rows_set_col col_set_col_other)
  have r5: "rectangular df5" and l5: "length (rows df5) = length (rows df2)"
    and c5: "col ''timestamp'' df5 = Inr ts'"
    unfolding df5_def using r4 l4 l2 c4
    by (simp_all add: rectangular_set_col length_rows_set_col col_set_col_other)
  have ld: "length dow = length (rows df5)"
    using dow by (rule col_length)
  have r6: "rectangular df6" and l6: "length (rows df6) = length (rows df5)"
    and c6: "col ''timestamp'' df6 = Inr ts'"
    unfolding df6_def using r5 ld c5
    by (simp_all add: rectangular_set_col length_rows_set_col col_set_col_other)
  have lh: "length hour = length (rows df6)"
    using hour by (rule col_length)
  have "col ''timestamp'' out = Inr ts'"
    unfolding out using r6 lh c6 by (simp add: col_set_col_other)
  with sorted show ?thesis
    by blast
qed

lemma rectangular_rename: "rectangular (rename mapping df) = rectangular df"
  by (simp add: rectangular_def rename_def)

text \<open>
  Claim C8. When \<open>load_data\<close> and then \<open>preprocess_data\<close> succeed on an uploaded table, the
  result is in non-decreasing order of its timestamp column (a row without a date, if there
  is one, counting as last).
\<close>

theorem load_then_preprocess_sorted:
  assumes "rectangular raw" and "load_data (Inr raw) = Inr table"
    and "preprocess_data parse fit_transform table = Inr out"
  shows "\<exists>ts. col ''timestamp'' out = Inr ts \<and> sorted_wrt ts_le ts"
proof -
  from assms(2) have "table = rename column_mapping raw"
    by (auto simp: load_data_def split: if_splits)
  with assms(1) have "rectangular table"
    by (simp add: rectangular_rename)
  with assms(3) show ?thesis
    by (rule preprocess_data_sorted)
qed

lemma load_data_raw_table: "load_data (Inr raw_table) = Inr loaded_table"
  by (simp add: load_data_def raw_table_def loaded_table_def required_columns_def rename_def
      column_mapping_def)

lemma preprocess_data_loaded_table:
  "preprocess_data example_parse example_imputer loaded_table = Inr preprocessed_table"
  by code_simp

theorem load_then_preprocess_sorted_witness:
  "rectangular raw_table \<and> load_data (Inr raw_table) = Inr loaded_table
   \<and> preprocess_data example_parse example_imputer loaded_table = Inr preprocessed_table
   \<and> col ''timestamp'' preprocessed_table
       = Inr [Timestamp 1704067200000000000, Timestamp 1704153600000000000,
              Timestamp 1704240000000000000]
   \<and> sorted_wrt ts_le [Timestamp 1704067200000000000, Timestamp 1704153600000000000,
                         Timestamp 1704240000000000000]"
proof -
  have r: "rectangular raw_table"
    by (simp add: rectangular_def raw_table_def)
  have c: "col ''timestamp'' preprocessed_table
       = Inr [Timestamp 1704067200000000000, Timestamp 1704153600000000000,
              Timestamp 1704240000000000000]"
    by (simp add: col_def preprocessed_table_def)
  from load_then_preprocess_sorted [OF r load_data_raw_table preprocess_data_loaded_table] c
  show ?thesis
    using r load_data_raw_table preprocess_data_loaded_table by simp
qed

subsection \<open>engineer_features\<close>

lemma group_window_constant:
  assumes "i < n"
  shows "group_window (replicate n p) (replicate n a) i = replicate (min (Suc i) 7) a"
proof -
  have "take (Suc i) (zip (replicate n p) (replicate n a)) = replicate (Suc i) (p, a)"
    using assms by (simp add: zip_replicate min_def)
  moreover have "filter (\<lambda>pa. fst pa = p) (replicate (Suc i) (p, a)) = replicate (Suc i) (p, a)"
    by (rule filter_True) simp
  ultimately have "map snd (filter (\<lambda>pa. fst pa = replicate n p ! i)
      (take (Suc i) (zip (replicate n p) (replicate n a)))) = replicate (Suc i) a"
    using assms by (simp del: replicate_Suc)
  then show ?thesis
    unfolding group_window_def Let_def by (simp add: min_def del: replicate_Suc)
qed

lemma observations_replicate: "observations (replicate k (Num v)) = replicate k v"
  by (induction k) simp_all

lemma rolling_mean_constant: "0 < k \<Longrightarrow> rolling_mean (replicate k (Num v)) = Num v"
  by (simp add: rolling_mean_def observations_replicate sum_list_replicate Suc_le_eq)

lemma rolling_std_constant:
  "rolling_std (replicate k (Num v)) = (if 2 \<le> k then Num 0 else NaN)"
proof (cases "2 \<le> k")
  case True
  then have "sum_list (replicate k v) / real k = v"
    by (simp add: sum_list_replicate)
  moreover have "sum_list (map (\<lambda>x. (x - v)\<^sup>2) (replicate k v)) = 0"
    by (simp add: sum_list_replicate)
  ultimately show ?thesis
    using True by (simp add: rolling_std_def observations_replicate Let_def)
next
  case False
  then show ?thesis
    by (simp add: rolling_std_def observations_replicate Let_def)
qed

lemma group_rolling_mean_constant:
  assumes "p \<noteq> NaN"
  shows "group_rolling rolling_mean (replicate n p) (replicate n (Num v)) = Inr (replicate n (Num v))"
proof -
  have "(if replicate n p ! i = NaN then NaN
         else rolling_mean (group_window (replicate n p) (replicate n (Num v)) i)) = Num v"
    if "i \<in> set [0..<n]" for i
  proof -
    from that have i: "i < n"
      by simp
    have "rolling_mean (replicate (min (Suc i) 7) (Num v)) = Num v"
      by (rule rolling_mean_constant) simp
    with i assms show ?thesis
      by (simp only: group_window_constant nth_replicate if_False)
  qed
  then have "map (\<lambda>i. if replicate n p ! i = NaN then NaN
                  else rolling_mean (group_window (replicate n p) (replicate n (Num v)) i)) [0..<n]
        = map (\<lambda>i. Num v) [0..<n]"
    by (intro map_cong) simp_all
  then show ?thesis
    by (simp add: group_rolling_def list_all_iff map_replicate_const)
qed

lemma group_rolling_std_constant:
  assumes "p \<noteq> NaN"
  shows "group_rolling rolling_std (replicate n p) (replicate n (Num v))
           = Inr (map (\<lambda>i. if i = 0 then NaN else Num 0) [0..<n])"
proof -
  have "(if replicate n p ! i = NaN then NaN
         else rolling_std (group_window (replicate n p) (replicate n (Num v)) i))
        = (if i = 0 then NaN else Num 0)"
    if "i \<in> set [0..<n]" for i
  proof -
    from that have i: "i < n"
      by simp
    have "(2 \<le> min (Suc i) 7) = (i \<noteq> 0)"
      by auto
    then have "rolling_std (replicate (min (Suc i) 7) (Num v)) = (if i = 0 then NaN else Num 0)"
      by (simp only: rolling_std_constant) simp
    with i assms show ?thesis
      by (simp only: group_window_constant nth_replicate if_False)
  qed
  then have "map (\<lambda>i. if replicate n p ! i = NaN then NaN
                  else rolling_std (group_window (replicate n p) (replicate n (Num v)) i)) [0..<n]
        = map (\<lambda>i. if i = 0 then NaN else Num 0) [0..<n]"
    by (intro map_cong) simp_all
  then show ?thesis
    by (simp add: group_rolling_def list_all_iff)
qed

lemma series_mul_length:
  "series_mul xs ys = Inr zs \<Longrightarrow> length zs = min (length xs) (length ys)"
  by (induction xs ys arbitrary: zs rule: series_mul.induct) (auto split: sum.splits)

lemma count_list_distinct: "distinct xs \<Longrightarrow> count_list xs x \<le> 1"
  by (induction xs) (auto simp: count_list_0_iff)

text \<open>
  What the code computes on a table of one platform whose audience_count is the constant v:
  the mean is v in every row, and the standard deviation is 0 in every row but the first,
  where the window holds a single sample and the value is missing.
\<close>

lemma engineer_features_constant:
  assumes "rectangular df" and "distinct (columns df)"
    and "col ''platform'' df = Inr (replicate n p)" and "p \<noteq> NaN"
    and "col ''audience_count'' df = Inr (replicate n (Num v))"
    and "engineer_features df = Inr out"
  shows "col ''audience_7day_mean'' out = Inr (replicate n (Num v))
       \<and> col ''audience_7day_std'' out = Inr (map (\<lambda>i. if i = 0 then NaN else Num 0) [0..<n])"
proof -
  let ?means = "replicate n (Num v)"
  let ?stds = "map (\<lambda>i. if i = 0 then NaN else Num 0) [0..<n]"
  have n: "length (rows df) = n"
    using col_length [OF assms(5)] by simp
  define df1 where "df1 = set_col ''audience_7day_mean'' ?means df"
  have lm: "length ?means = length (rows df)"
    using n by simp
  have cm: "count_list (columns df) ''audience_7day_mean'' \<le> 1"
    using assms(2) by (rule count_list_distinct)
  have r1: "rectangular df1"
    unfolding df1_def using assms(1) lm by (rule rectangular_set_col)
  have l1: "length (rows df1) = n"
    unfolding df1_def using n by (simp add: length_rows_set_col)
  have p1: "col ''platform'' df1 = Inr (replicate n p)"
    unfolding df1_def using assms(3) col_set_col_other [OF _ assms(1) lm, of "''audience_7day_mean''" "''platform''"]
    by simp
  have a1: "col ''audience_count'' df1 = Inr (replicate n (Num v))"
    unfolding df1_def using assms(5) col_set_col_other [OF _ assms(1) lm, of "''audience_7day_mean''" "''audience_count''"]
    by simp
  have m1: "col ''audience_7day_mean'' df1 = Inr ?means"
    unfolding df1_def using assms(1) lm cm by (rule col_set_col_same)
  have s1: "count_list (columns df1) ''audience_7day_std'' \<le> 1"
    unfolding df1_def using count_list_distinct [OF assms(2), of "''audience_7day_std''"]
    by (simp add: count_list_columns_set_col)
  define df2 where "df2 = set_col ''audience_7day_std'' ?stds df1"
  have lsd: "length ?stds = length (rows df1)"
    using l1 by simp
  have r2: "rectangular df2"
    unfolding df2_def using r1 lsd by (rule rectangular_set_col)
  have l2: "length (rows df2) = n"
    unfolding df2_def using l1 by (simp add: length_rows_set_col)
  have m2: "col ''audience_7day_mean'' df2 = Inr ?means"
    unfolding df2_def using m1 col_set_col_other [OF _ r1 lsd, of "''audience_7day_std''" "''audience_7day_mean''"]
    by simp
  have s2: "col ''audience_7day_std'' df2 = Inr ?stds"
    unfolding df2_def using r1 lsd s1 by (rule col_set_col_same)
  from assms(6) obtain er cr score where er: "col ''EngagementRate'' df2 = Inr er"
    and cr: "col ''ConversionRate'' df2 = Inr cr" and score: "series_mul er cr = Inr score"
    using assms(3,4,5) p1 a1
    by (auto simp: engineer_features_def group_rolling_mean_constant group_rolling_std_constant
        df1_def [symmetric] df2_def [symmetric] Let_def split: sum.splits)
  have ls: "length score = length (rows df2)"
    using series_mul_length [OF score] col_length [OF er] col_length [OF cr] by simp
  define df3 where "df3 = set_col ''engagement_score'' score df2"
  have r3: "rectangular df3" and l3: "length (rows df3) = n"
    and m3: "col ''audience_7day_mean'' df3 = Inr ?means"
    and s3: "col ''audience_7day_std'' df3 = Inr ?stds"
    unfolding df3_def using r2 l2 ls m2 s2
    by (simp_all add: rectangular_set_col length_rows_set_col col_set_col_other)
  from assms(6) obtain plat3 where plat3: "col ''platform'' df3 = Inr plat3"
    and out: "out = set_col ''platform_encoded'' (categorical_codes plat3) df3"
    using assms(3,4,5) p1 a1 er cr score
    by (auto simp: engineer_features_def group_rolling_mean_constant group_rolling_std_constant
        df1_def [symmetric] df2_def [symmetric] df3_def [symmetric] Let_def split: sum.splits)
  have "length (categorical_codes plat3) = length (rows df3)"
    using col_length [OF plat3] by (simp add: categorical_codes_def)
  then show ?thesis
    unfolding out using r3 m3 s3 by (simp add: col_set_col_other)
qed

lemma engineer_features_preprocessed_table:
  "engineer_features preprocessed_table = Inr featured_table"
  by (simp add: engineer_features_def preprocessed_table_def featured_table_def col_def set_col_def
      group_rolling_def group_window_def rolling_mean_def rolling_std_def categorical_codes_def
      upt_rec Let_def)

text \<open>
  Claim C1. On a single-platform table with a constant audience_count the rolling mean and
  standard deviation should be v and 0 in every row. Both windows are opened with
  \<open>min_periods=1\<close>; the mean keeps the promise, the standard deviation does not: on this
  table of three rows of 5 the first row gets no standard deviation at all.
\<close>

theorem engineer_features_first_row_std:
  "col ''platform'' preprocessed_table = Inr [Text ''Web'', Text ''Web'', Text ''Web'']
   \<and> col ''audience_count'' preprocessed_table = Inr [Num 5, Num 5, Num 5]
   \<and> engineer_features preprocessed_table = Inr featured_table
   \<and> col ''audience_7day_mean'' featured_table = Inr [Num 5, Num 5, Num 5]
   \<and> col ''audience_7day_std'' featured_table = Inr [NaN, Num 0, Num 0]
   \<and> col ''audience_7day_std'' featured_table \<noteq> Inr [Num 0, Num 0, Num 0]"
  by (simp add: engineer_features_preprocessed_table)
    (simp add: col_def preprocessed_table_def featured_table_def)

section \<open>Properties of the forecast table\<close>

lemma date_range_Inr:
  "date_range start n = Inr ts \<longleftrightarrow> 0 \<le> n \<and> ts = map (\<lambda>k. start + int k * day_ns) [0..<nat n]"
  by (auto simp: date_range_def)

text \<open>
  The table is built whenever the frame ends in a timestamp and the series has N values.
\<close>

lemma forecast_df_succeeds:
  assumes "index modeling_df \<noteq> []" and "last (index modeling_df) = Timestamp t"
    and "0 \<le> N" and "length forecast = nat N"
  shows "forecast_df modeling_df N forecast
           = Inr (zip (map (\<lambda>k. t + day_ns + int k * day_ns) [0..<nat N]) forecast)"
  using assms by (simp add: forecast_df_def date_range_def)

text \<open>A valid handle and a frame that ends in a timestamp give a table of N rows.\<close>

lemma forecast_table_after_get_forecast:
  assumes "valid_handle s" and "0 < N"
    and "index modeling_df \<noteq> []" and "last (index modeling_df) = Timestamp t"
  shows "\<exists>forecast out. get_forecast s N = Inr (Some forecast)
           \<and> forecast_df modeling_df N forecast = Inr out \<and> length out = nat N"
proof -
  from get_forecast_length [OF assms(1,2)] obtain forecast
    where f: "get_forecast s N = Inr (Some forecast)" "length forecast = nat N"
    by blast
  from assms(2) have "0 \<le> N"
    by simp
  from forecast_df_succeeds [OF assms(3,4) this f(2)] f show ?thesis
    by simp
qed

text \<open>
  Claim C9. Whenever the forecast table is built, for a horizon N, it has exactly N rows;
  their timestamps are the N consecutive days that start one day after the last timestamp
  of the modeling frame, and their values are the forecast series in its order.
\<close>

theorem forecast_df_rows:
  assumes "forecast_df modeling_df N forecast = Inr out"
  shows "length out = nat N \<and> 0 \<le> N
       \<and> (\<exists>t. index modeling_df \<noteq> [] \<and> last (index modeling_df) = Timestamp t
              \<and> map fst out = map (\<lambda>k. t + (int k + 1) * day_ns) [0..<nat N])
       \<and> map snd out = forecast"
proof -
  from assms obtain t ts where ne: "index modeling_df \<noteq> []"
    and t: "last (index modeling_df) = Timestamp t"
    and ts: "date_range (t + day_ns) N = Inr ts"
    and len: "length ts = length forecast"
    and out: "out = zip ts forecast"
    by (auto simp: forecast_df_def split: cell.splits sum.splits if_splits)
  from ts have N: "0 \<le> N" and ts_eq: "ts = map (\<lambda>k. t + day_ns + int k * day_ns) [0..<nat N]"
    by (simp_all add: date_range_Inr)
  have "map fst out = ts" "map snd out = forecast"
    using len out by simp_all
  moreover have "ts = map (\<lambda>k. t + (int k + 1) * day_ns) [0..<nat N]"
    unfolding ts_eq by (simp add: algebra_simps)
  moreover have "length out = nat N"
    using out len ts_eq by simp
  ultimately show ?thesis
    using N ne t by simp
qed

theorem forecast_df_rows_witness:
  "forecast_df example_frame 3 [11, 12, 13]
     = Inr [(2 * day_ns, 11), (3 * day_ns, 12), (4 * day_ns, 13)]
   \<and> length [(2 * day_ns, 11 :: real), (3 * day_ns, 12), (4 * day_ns, 13)] = nat 3
   \<and> last (index example_frame) = Timestamp day_ns
   \<and> map fst [(2 * day_ns, 11 :: real), (3 * day_ns, 12), (4 * day_ns, 13)]
       = map (\<lambda>k. day_ns + (int k + 1) * day_ns) [0..<nat 3]"
proof -
  have run: "forecast_df example_frame 3 [11, 12, 13]
     = Inr [(2 * day_ns, 11), (3 * day_ns, 12), (4 * day_ns, 13)]"
    by (simp add: forecast_df_def example_frame_def date_range_def upt_rec day_ns_def)
  from forecast_df_rows [OF run] run show ?thesis
    by (simp add: example_frame_def)
qed

end
